theory Spec2Isabelle
  imports Complex_Main
begin

section \<open>Tensors and Python errors\<close>

text \<open>
  The engine of \<^verbatim>\<open>weaver/utils/nn/tools.py\<close> works on torch tensors and numpy arrays.
  A tensor is modelled as its shape together with its elements in row-major (contiguous)
  order, which is how both libraries store a contiguous array.  Every exception the
  source can raise is a value of \<open>error\<close>; a computation that may raise returns
  \<open>error + 'a\<close> with \<open>Inl\<close> for the exception.
\<close>

datatype error =
    KeyError | IndexError | ValueError | TypeError | AssertionError
  | ZeroDivisionError | NameError | RuntimeError | AttributeError

datatype 'a tensor = Tensor (shape: "nat list") (data: "'a list")

definition bindE :: "error + 'a \<Rightarrow> ('a \<Rightarrow> error + 'b) \<Rightarrow> error + 'b" where
  "bindE m f = (case m of Inl e \<Rightarrow> Inl e | Inr v \<Rightarrow> f v)"

definition ndim :: "'a tensor \<Rightarrow> nat" where
  "ndim t = length (shape t)"

definition wf_tensor :: "'a tensor \<Rightarrow> bool" where
  "wf_tensor t = (length (data t) = prod_list (shape t))"

definition tmap :: "('a \<Rightarrow> 'b) \<Rightarrow> 'a tensor \<Rightarrow> 'b tensor" where
  "tmap f t = Tensor (shape t) (map f (data t))"

text \<open>\<^verbatim>\<open>t.shape[0]\<close>: a 0-d tensor has no first axis.\<close>

definition shape0 :: "'a tensor \<Rightarrow> error + nat" where
  "shape0 t = (case shape t of [] \<Rightarrow> Inl IndexError | n # sh \<Rightarrow> Inr n)"

text \<open>Row-major position of a multi-index, and the multi-index of a position.\<close>

fun ravel :: "nat list \<Rightarrow> nat list \<Rightarrow> nat" where
  "ravel (n # sh) (i # idx) = i * prod_list sh + ravel sh idx"
| "ravel sh idx = 0"

fun unravel :: "nat list \<Rightarrow> nat \<Rightarrow> nat list" where
  "unravel [] p = []"
| "unravel (n # sh) p = (p div prod_list sh) # unravel sh (p mod prod_list sh)"

definition item_at :: "'a tensor \<Rightarrow> nat list \<Rightarrow> 'a" where
  "item_at t idx = data t ! ravel (shape t) idx"

text \<open>The sub-tensors along the first axis (the rows of a matrix).\<close>

definition rows :: "'a tensor \<Rightarrow> 'a list list" where
  "rows t = (case shape t of [] \<Rightarrow> []
     | n # sh \<Rightarrow> map (\<lambda>i. take (prod_list sh) (drop (i * prod_list sh) (data t))) [0..<n])"

text \<open>\<^verbatim>\<open>t.view(-1)\<close> of a contiguous tensor.\<close>

definition view_flat :: "'a tensor \<Rightarrow> 'a tensor" where
  "view_flat t = Tensor [length (data t)] (data t)"

text \<open>
  \<^verbatim>\<open>t[m]\<close> for a rank-1 boolean tensor \<open>m\<close>: keeps the sub-tensors along the first
  axis whose mask entry is true; torch raises IndexError when the mask length differs
  from the first dimension.
\<close>

definition mask_index :: "'a tensor \<Rightarrow> bool tensor \<Rightarrow> error + 'a tensor" where
  "mask_index t m = (case shape t of [] \<Rightarrow> Inl IndexError
     | n # sh \<Rightarrow>
        if shape m \<noteq> [n] then Inl IndexError
        else (let kept = map fst (filter snd (zip (rows t) (data m)))
              in Inr (Tensor (length kept # sh) (concat kept))))"

text \<open>\<^verbatim>\<open>t.transpose(a, b).contiguous()\<close>: the two axes are exchanged.\<close>

definition swap :: "nat \<Rightarrow> nat \<Rightarrow> 'a list \<Rightarrow> 'a list" where
  "swap a b xs = xs[a := xs ! b, b := xs ! a]"

definition transpose_t :: "nat \<Rightarrow> nat \<Rightarrow> 'a tensor \<Rightarrow> error + 'a tensor" where
  "transpose_t a b t =
     (if a < ndim t \<and> b < ndim t
      then Inr (Tensor (swap a b (shape t))
             (map (\<lambda>p. data t ! ravel (shape t) (swap a b (unravel (swap a b (shape t)) p)))
                [0..<length (data t)]))
      else Inl IndexError)"

text \<open>\<^verbatim>\<open>t.view((-1, k))\<close>: torch cannot infer the free dimension when \<open>k = 0\<close> or when
  \<open>k\<close> does not divide the number of elements.\<close>

definition view_rows :: "nat \<Rightarrow> 'a tensor \<Rightarrow> error + 'a tensor" where
  "view_rows k t =
     (if k = 0 \<or> length (data t) mod k \<noteq> 0 then Inl RuntimeError
      else Inr (Tensor [length (data t) div k, k] (data t)))"

section \<open>Label and prediction flattening\<close>

text \<open>
  \<^verbatim>\<open>
  def _flatten_label(label, mask=None):
      if label.ndim > 1:
          label = label.view(-1)
          if mask is not None:
              label = label[mask.view(-1)]
      return label
  \<close>
\<close>

definition flatten_label :: "'a tensor \<Rightarrow> bool tensor option \<Rightarrow> error + 'a tensor" where
  "flatten_label label msk =
     (if ndim label > 1
      then (let label' = view_flat label
            in case msk of None \<Rightarrow> Inr label'
               | Some m \<Rightarrow> mask_index label' (view_flat m))
      else Inr label)"

text \<open>
  \<^verbatim>\<open>
  def _flatten_preds(preds, mask=None, label_axis=1):
      if preds.ndim > 2:
          preds = preds.transpose(label_axis, -1).contiguous()
          preds = preds.view((-1, preds.shape[-1]))
          if mask is not None:
              preds = preds[mask.view(-1)]
      return preds
  \<close>
\<close>

definition flatten_preds :: "'a tensor \<Rightarrow> bool tensor option \<Rightarrow> nat \<Rightarrow> error + 'a tensor" where
  "flatten_preds preds msk label_axis =
     (if ndim preds > 2
      then bindE (transpose_t label_axis (ndim preds - 1) preds) (\<lambda>preds1.
           bindE (view_rows (last (shape preds1)) preds1) (\<lambda>preds2.
             case msk of None \<Rightarrow> Inr preds2
             | Some m \<Rightarrow> mask_index preds2 (view_flat m)))
      else Inr preds)"

text \<open>\<^verbatim>\<open>len(t)\<close> of a tensor or array is its first dimension.\<close>

definition len :: "'a tensor \<Rightarrow> nat" where
  "len t = (case shape t of [] \<Rightarrow> 0 | n # sh \<Rightarrow> n)"

text \<open>The coordinates of a rank-2 mask that are kept, in row-major order.\<close>

definition kept_coords :: "bool tensor \<Rightarrow> (nat \<times> nat) list" where
  "kept_coords m = filter (\<lambda>(r, c). item_at m [r, c])
      (List.product [0..<shape m ! 0] [0..<shape m ! 1])"

section \<open>Further tensor operations used by the loops\<close>

text \<open>
  \<^verbatim>\<open>t[:, a:b]\<close>: a slice of the second axis, with Python's clamping of the bounds to
  the axis length.  A tensor of rank below 2 has no second axis (IndexError).
\<close>

definition slice_cols :: "nat \<Rightarrow> nat \<Rightarrow> 'a tensor \<Rightarrow> error + 'a tensor" where
  "slice_cols a b t = (case shape t of
       n # c # rest \<Rightarrow>
         (let lo = min a c; hi = max lo (min b c); w = prod_list rest
          in Inr (Tensor (n # (hi - lo) # rest)
                (concat (map (\<lambda>row. take ((hi - lo) * w) (drop (lo * w) row)) (rows t)))))
     | _ \<Rightarrow> Inl IndexError)"

text \<open>\<^verbatim>\<open>t.squeeze()\<close> and \<^verbatim>\<open>np.squeeze(t)\<close>: every axis of length 1 is removed.\<close>

definition squeeze :: "'a tensor \<Rightarrow> 'a tensor" where
  "squeeze t = Tensor (filter (\<lambda>n. n \<noteq> 1) (shape t)) (data t)"

text \<open>\<^verbatim>\<open>t[:, None]\<close>: a new axis of length 1 after the first one.\<close>

definition unsqueeze1 :: "'a tensor \<Rightarrow> error + 'a tensor" where
  "unsqueeze1 t = (case shape t of [] \<Rightarrow> Inl IndexError | n # sh \<Rightarrow> Inr (Tensor (n # 1 # sh) (data t)))"

text \<open>
  The lanes along the second axis: for every index of the first axis and every position
  of the remaining axes, the elements met when only the second index varies.
\<close>

definition lanes1 :: "'a tensor \<Rightarrow> 'a list list list" where
  "lanes1 t = (case shape t of
       n # c # rest \<Rightarrow>
         map (\<lambda>row. map (\<lambda>q. map (\<lambda>j. row ! (j * prod_list rest + q)) [0..<c])
                      [0..<prod_list rest]) (rows t)
     | _ \<Rightarrow> [])"

text \<open>The index of the first greatest element (the loop behind \<^verbatim>\<open>argmax\<close>).\<close>

fun argmax_aux :: "nat \<Rightarrow> real \<Rightarrow> nat \<Rightarrow> real list \<Rightarrow> nat" where
  "argmax_aux best bv i [] = best"
| "argmax_aux best bv i (x # xs) =
     (if bv < x then argmax_aux i x (Suc i) xs else argmax_aux best bv (Suc i) xs)"

definition argmax :: "real list \<Rightarrow> nat" where
  "argmax xs = (case xs of [] \<Rightarrow> 0 | x # xs' \<Rightarrow> argmax_aux 0 x 1 xs')"

text \<open>
  \<^verbatim>\<open>_, idx = t.max(1)\<close>: the indices of the maxima along the second axis.  torch raises
  IndexError when there is no second axis or when it is empty.
\<close>

definition max1 :: "real tensor \<Rightarrow> error + int tensor" where
  "max1 t = (case shape t of
       n # c # rest \<Rightarrow>
         if c = 0 then Inl IndexError
         else Inr (Tensor (n # rest) (concat (map (map (\<lambda>lane. int (argmax lane))) (lanes1 t))))
     | _ \<Rightarrow> Inl IndexError)"

text \<open>
  \<^verbatim>\<open>torch.softmax(t, dim=1)\<close>.  The exponential is not computed here: the normalisation of
  one lane is a parameter \<open>sm\<close> of the model, applied to every lane along the second axis.
\<close>

definition softmax1 :: "(real list \<Rightarrow> real list) \<Rightarrow> real tensor \<Rightarrow> error + real tensor" where
  "softmax1 sm t = (case shape t of
       n # c # rest \<Rightarrow>
         Inr (Tensor (shape t)
           (concat (map (\<lambda>ls. concat (map (\<lambda>j. map (\<lambda>lane. sm lane ! j) ls) [0..<c])) (lanes1 t))))
     | _ \<Rightarrow> Inl IndexError)"

text \<open>Broadcasting of two shapes, aligned from the last axis, as torch and numpy do it.\<close>

fun bshape_rev :: "nat list \<Rightarrow> nat list \<Rightarrow> nat list option" where
  "bshape_rev [] ys = Some ys"
| "bshape_rev xs [] = Some xs"
| "bshape_rev (x # xs) (y # ys) =
     (if x = y \<or> y = 1 then map_option ((#) x) (bshape_rev xs ys)
      else if x = 1 then map_option ((#) y) (bshape_rev xs ys)
      else None)"

definition bshape :: "nat list \<Rightarrow> nat list \<Rightarrow> nat list option" where
  "bshape a b = map_option rev (bshape_rev (rev a) (rev b))"

definition bindex :: "nat list \<Rightarrow> nat list \<Rightarrow> nat list" where
  "bindex sh idx = map2 (\<lambda>n i. if n = 1 then 0 else i) sh (drop (length idx - length sh) idx)"

definition broadcast2 :: "('a \<Rightarrow> 'b \<Rightarrow> 'c) \<Rightarrow> 'a tensor \<Rightarrow> 'b tensor \<Rightarrow> error + 'c tensor" where
  "broadcast2 f a b = (case bshape (shape a) (shape b) of
       None \<Rightarrow> Inl RuntimeError
     | Some sh \<Rightarrow> Inr (Tensor sh
         (map (\<lambda>p. f (item_at a (bindex (shape a) (unravel sh p)))
                     (item_at b (bindex (shape b) (unravel sh p))))
            [0..<prod_list sh])))"

text \<open>\<^verbatim>\<open>(a == b).sum().item()\<close>\<close>

definition eq_sum :: "int tensor \<Rightarrow> int tensor \<Rightarrow> error + nat" where
  "eq_sum a b = bindE (broadcast2 (\<lambda>x y. x = y) a b) (\<lambda>e. Inr (length (filter id (data e))))"

text \<open>\<^verbatim>\<open>e = a - b; e.abs().sum().item()\<close> and \<^verbatim>\<open>e.square().sum().item()\<close>\<close>

definition abs_err_sum :: "real tensor \<Rightarrow> error + real" where
  "abs_err_sum e = Inr (sum_list (map abs (data e)))"

definition sqr_err_sum :: "real tensor \<Rightarrow> error + real" where
  "sqr_err_sum e = Inr (sum_list (map (\<lambda>x. x * x) (data e)))"

text \<open>\<^verbatim>\<open>t.long()\<close> truncates towards zero, \<^verbatim>\<open>t.bool()\<close> tests for non-zero.\<close>

definition long_t :: "real tensor \<Rightarrow> int tensor" where
  "long_t t = tmap (\<lambda>x. if 0 \<le> x then \<lfloor>x\<rfloor> else \<lceil>x\<rceil>) t"

definition bool_t :: "real tensor \<Rightarrow> bool tensor" where
  "bool_t t = tmap (\<lambda>x. x \<noteq> 0) t"

text \<open>
  \<^verbatim>\<open>t.to(dev, non_blocking=True)\<close>: the tensor itself, on another device.  The keyword
  arguments \<^verbatim>\<open>to\<close> accepts are fixed; any other keyword is a TypeError.
\<close>

definition tensor_to :: "string list \<Rightarrow> 'a tensor \<Rightarrow> error + 'a tensor" where
  "tensor_to kwargs t =
     (if set kwargs \<subseteq> {''device'', ''dtype'', ''non_blocking'', ''copy'', ''memory_format''}
      then Inr t else Inl TypeError)"

section \<open>Dataset configuration, batches and numpy helpers\<close>

text \<open>
  The fields of \<^verbatim>\<open>data_config\<close> the engine reads.  \<open>label_value\<close> lists the classes and
  \<open>target_value\<close> the regression targets; their lengths are the block widths of the
  hybrid output.
\<close>

record data_config =
  input_names :: "string list"
  label_names :: "string list"
  target_names :: "string list"
  label_value :: "string list"
  target_value :: "string list"

text \<open>A Python dict, in insertion order; \<^verbatim>\<open>d[k]\<close> raises KeyError on a missing key.\<close>

type_synonym 'a dict = "(string \<times> 'a) list"

definition getitem :: "'a dict \<Rightarrow> string \<Rightarrow> error + 'a" where
  "getitem d k = (case map_of d k of None \<Rightarrow> Inl KeyError | Some v \<Rightarrow> Inr v)"

text \<open>\<^verbatim>\<open>xs[0]\<close>\<close>

definition first :: "'a list \<Rightarrow> error + 'a" where
  "first xs = (case xs of [] \<Rightarrow> Inl IndexError | x # _ \<Rightarrow> Inr x)"

text \<open>A comprehension or loop whose body may raise stops at the first exception.\<close>

fun mapE :: "('a \<Rightarrow> error + 'b) \<Rightarrow> 'a list \<Rightarrow> error + 'b list" where
  "mapE f [] = Inr []"
| "mapE f (x # xs) = bindE (f x) (\<lambda>y. bindE (mapE f xs) (\<lambda>ys. Inr (y # ys)))"

text \<open>\<^verbatim>\<open>d[k].append(v)\<close> on a \<^verbatim>\<open>defaultdict(list)\<close>\<close>

definition dict_append :: "string \<Rightarrow> 'a \<Rightarrow> 'a list dict \<Rightarrow> 'a list dict" where
  "dict_append k v d =
     (case map_of d k of
        None \<Rightarrow> d @ [(k, [v])]
      | Some vs \<Rightarrow> map (\<lambda>(k', vs'). if k' = k then (k', vs' @ [v]) else (k', vs')) d)"

text \<open>One iteration step of the batch source: features \<open>X\<close>, truths \<open>y\<close>, observers \<open>Z\<close>.\<close>

type_synonym batch = "real tensor dict \<times> real tensor dict \<times> real tensor dict"

text \<open>
  \<^verbatim>\<open>np.concatenate(arrays)\<close> along the first axis: raises ValueError on an empty list, on
  a 0-d array and on arrays whose other dimensions differ.
\<close>

definition np_concatenate :: "'a tensor list \<Rightarrow> error + 'a tensor" where
  "np_concatenate ts = (case ts of
       [] \<Rightarrow> Inl ValueError
     | t # _ \<Rightarrow>
        if list_ex (\<lambda>u. shape u = []) ts \<or> list_ex (\<lambda>u. tl (shape u) \<noteq> tl (shape t)) ts
        then Inl ValueError
        else Inr (Tensor (sum_list (map len ts) # tl (shape t)) (concat (map data ts))))"

text \<open>
  Modelled from the spec: \<^verbatim>\<open>_concat\<close> of \<^verbatim>\<open>weaver/utils/data/tools.py\<close>, which is not among
  the sources.  The spec calls its results the concatenated per-batch arrays; an empty
  list gives an empty array.
\<close>

definition concat_arrays :: "'a tensor list \<Rightarrow> error + 'a tensor" where
  "concat_arrays ts = (if ts = [] then Inr (Tensor [0] []) else np_concatenate ts)"

text \<open>\<^verbatim>\<open>a.sum(axis=-1)\<close> of a boolean array: the number of true entries along the last axis.\<close>

definition sum_last_axis :: "bool tensor \<Rightarrow> error + nat tensor" where
  "sum_last_axis t =
     (if shape t = [] then Inl ValueError
      else Inr (Tensor (butlast (shape t))
             (map (\<lambda>i. length (filter id (take (last (shape t)) (drop (i * last (shape t)) (data t)))))
                [0..<prod_list (butlast (shape t))])))"

text \<open>
  \<^verbatim>\<open>a.reshape(dims)\<close> with at most one dimension left free (\<open>None\<close> for \<^verbatim>\<open>-1\<close>): numpy
  raises ValueError when the sizes do not fit.
\<close>

definition np_reshape :: "nat option list \<Rightarrow> 'a tensor \<Rightarrow> error + 'a tensor" where
  "np_reshape dims t =
     (let known = prod_list (map (\<lambda>d. case d of None \<Rightarrow> 1 | Some n \<Rightarrow> n) dims);
          free = length (filter (\<lambda>d. d = None) dims);
          size = length (data t)
      in if free = 0 then (if known = size then Inr (Tensor (map the dims) (data t)) else Inl ValueError)
         else if free = 1 \<and> known \<noteq> 0 \<and> size mod known = 0
         then Inr (Tensor (map (\<lambda>d. case d of None \<Rightarrow> size div known | Some n \<Rightarrow> n) dims) (data t))
         else Inl ValueError)"

text \<open>The position of an element in a list of distinct elements.\<close>

fun the_index :: "'a list \<Rightarrow> 'a \<Rightarrow> nat" where
  "the_index [] a = 0"
| "the_index (x # xs) a = (if x = a then 0 else Suc (the_index xs a))"

text \<open>
  \<^verbatim>\<open>a.transpose(axes)\<close> of a numpy array: \<open>axes\<close> must be a permutation of all the axes
  of \<open>a\<close>, otherwise numpy raises ValueError (``axes don't match array'').  Axis \<open>j\<close> of the
  result is axis \<open>axes ! j\<close> of \<open>a\<close>.
\<close>

definition np_transpose :: "nat list \<Rightarrow> 'a tensor \<Rightarrow> error + 'a tensor" where
  "np_transpose axes t =
     (if length axes = ndim t \<and> distinct axes \<and> list_all (\<lambda>a. a < ndim t) axes
      then (let sh = map (\<lambda>a. shape t ! a) axes
            in Inr (Tensor sh
                 (map (\<lambda>p. item_at t (map (\<lambda>a. unravel sh p ! (the_index axes a)) [0..<ndim t]))
                    [0..<length (data t)])))
      else Inl ValueError)"

text \<open>
  \<^verbatim>\<open>ak.unflatten(array, counts)\<close> of the awkward-array library: the first axis is cut
  into consecutive pieces of the given lengths; the counts must be a rank-1 array that
  sums to the length of the array, otherwise ValueError.  The result is jagged: one
  sub-array per count.
\<close>

datatype 'a array = Dense "'a tensor" | Jagged "'a tensor list"

fun split_counts :: "nat list \<Rightarrow> 'a list \<Rightarrow> 'a list list" where
  "split_counts [] xs = []"
| "split_counts (c # cs) xs = take c xs # split_counts cs (drop c xs)"

definition ak_unflatten :: "'a tensor \<Rightarrow> nat tensor \<Rightarrow> error + 'a array" where
  "ak_unflatten t counts = (case shape t of
       [] \<Rightarrow> Inl ValueError
     | n # sh \<Rightarrow>
        if ndim counts = 1 \<and> sum_list (data counts) = n
        then Inr (Jagged (map (\<lambda>rs. Tensor (length rs # sh) (concat rs))
                      (split_counts (data counts) (rows t))))
        else Inl ValueError)"

text \<open>\<^verbatim>\<open>ak.flatten(a, axis=1)\<close>: the pieces of a jagged array put end to end again.\<close>

definition ak_flatten :: "'a tensor list \<Rightarrow> 'a list" where
  "ak_flatten ts = concat (map data ts)"

section \<open>The hybrid output splitter\<close>

text \<open>
  After the loss call the hybrid loops slice the raw output at the declared boundary:
  \<^verbatim>\<open>model_output[:, :len(data_config.label_value)]\<close> for the class logits and
  \<^verbatim>\<open>model_output[:, len(data_config.label_value):len(data_config.label_value)+len(data_config.target_value)]\<close>
  for the regression outputs (lines 709 and 716 of \<^verbatim>\<open>train_hybrid\<close>, lines 853 and 854 of
  \<^verbatim>\<open>evaluate_hybrid\<close>).
\<close>

definition class_slice :: "data_config \<Rightarrow> 'a tensor \<Rightarrow> error + 'a tensor" where
  "class_slice cfg model_output = slice_cols 0 (length (label_value cfg)) model_output"

definition regression_slice :: "data_config \<Rightarrow> 'a tensor \<Rightarrow> error + 'a tensor" where
  "regression_slice cfg model_output =
     slice_cols (length (label_value cfg)) (length (label_value cfg) + length (target_value cfg))
       model_output"

section \<open>Running statistics\<close>

text \<open>
  The variables a loop accumulates over an epoch (the RunningStats of the spec), under
  the names the source gives them.  Every loop starts from zeros and empty containers
  and uses the variables it declares.  Losses are Python floats; they are modelled as
  real numbers, so rounding is not part of the model.
\<close>

record loop_state =
  num_batches :: nat
  count :: nat
  entry_count :: nat
  total_loss :: real
  total_cat_loss :: real
  total_reg_loss :: real
  total_correct :: nat
  sum_abs_err :: real
  sum_sqr_err :: real
  label_counter :: "(int \<times> nat) list"
  scores :: "real tensor list"
  scores_cat :: "real tensor list"
  scores_reg :: "real tensor list"
  labels :: "real tensor list dict"
  targets :: "real tensor list dict"
  labels_counts :: "nat tensor list"
  observers :: "real tensor list dict"
  postfix :: "(string \<times> real) list"

definition init_state :: loop_state where
  "init_state = \<lparr>num_batches = 0, count = 0, entry_count = 0, total_loss = 0,
     total_cat_loss = 0, total_reg_loss = 0, total_correct = 0, sum_abs_err = 0,
     sum_sqr_err = 0, label_counter = [], scores = [], scores_cat = [], scores_reg = [],
     labels = [], targets = [], labels_counts = [], observers = [], postfix = []\<rparr>"

text \<open>\<^verbatim>\<open>Counter.update(values)\<close>\<close>

definition counter_incr :: "(int \<times> nat) list \<Rightarrow> int \<Rightarrow> (int \<times> nat) list" where
  "counter_incr c x =
     (case map_of c x of
        None \<Rightarrow> c @ [(x, 1)]
      | Some n \<Rightarrow> map (\<lambda>(k, v). if k = x then (k, Suc v) else (k, v)) c)"

definition counter_update :: "(int \<times> nat) list \<Rightarrow> int list \<Rightarrow> (int \<times> nat) list" where
  "counter_update c xs = fold (\<lambda>x c'. counter_incr c' x) xs c"

text \<open>Python's \<^verbatim>\<open>a / b\<close> raises ZeroDivisionError for a zero divisor.\<close>

definition py_div :: "real \<Rightarrow> real \<Rightarrow> error + real" where
  "py_div a b = (if b = 0 then Inl ZeroDivisionError else Inr (a / b))"

text \<open>\<^verbatim>\<open>steps_per_epoch is not None and num_batches >= steps_per_epoch\<close>\<close>

definition steps_reached :: "int option \<Rightarrow> nat \<Rightarrow> bool" where
  "steps_reached steps_per_epoch n =
     (case steps_per_epoch of None \<Rightarrow> False | Some s \<Rightarrow> s \<le> int n)"

text \<open>
  \<^verbatim>\<open>
  try:
      label_mask = y[data_config.label_names[0] + '_mask'].bool()
  except KeyError:
      label_mask = None
  \<close>
\<close>

definition lookup_mask :: "real tensor dict \<Rightarrow> string \<Rightarrow> error + bool tensor option" where
  "lookup_mask y name =
     (case getitem y (name @ ''_mask'') of
        Inl e \<Rightarrow> (if e = KeyError then Inr None else Inl e)
      | Inr m \<Rightarrow> Inr (Some (bool_t m)))"

text \<open>\<^verbatim>\<open>[X[k].to(dev, non_blocking=True) for k in data_config.input_names]\<close>\<close>

definition model_inputs :: "data_config \<Rightarrow> real tensor dict \<Rightarrow> error + real tensor list" where
  "model_inputs cfg X =
     mapE (\<lambda>k. bindE (getitem X k) (tensor_to [''non_blocking''])) (input_names cfg)"

section \<open>The classification loops\<close>

text \<open>
  \<^verbatim>\<open>train_classification\<close>, lines 60 to 92: what one batch computes.  The model is an
  abstract state \<open>'m\<close> with its forward pass \<open>forward\<close>; \<open>opt_step\<close> stands for the backward
  pass and the optimizer (and per-step scheduler) update, which change the model between
  batches.  The result is the updated model, the number of examples, the batch loss, the
  number of correct predictions and the flattened label.
\<close>

definition train_classification_batch ::
  "data_config \<Rightarrow> ('m \<Rightarrow> real tensor list \<Rightarrow> real tensor) \<Rightarrow> (real tensor \<Rightarrow> int tensor \<Rightarrow> real)
    \<Rightarrow> ('m \<Rightarrow> real tensor list \<Rightarrow> int tensor \<Rightarrow> 'm) \<Rightarrow> 'm \<Rightarrow> batch
    \<Rightarrow> error + ('m \<times> nat \<times> real \<times> nat \<times> int tensor)" where
  "train_classification_batch cfg forward loss_func opt_step model b =
     (case b of (X, y, Z) \<Rightarrow>
      bindE (model_inputs cfg X) (\<lambda>inputs.
      bindE (first (label_names cfg)) (\<lambda>name.
      bindE (getitem y name) (\<lambda>raw.
      bindE (lookup_mask y name) (\<lambda>label_mask.
      bindE (flatten_label (long_t raw) label_mask) (\<lambda>label.
      bindE (shape0 label) (\<lambda>num_examples.
      bindE (tensor_to [''non_blocking''] label) (\<lambda>label.
      bindE (flatten_preds (forward model inputs) label_mask 1) (\<lambda>logits.
      bindE (max1 logits) (\<lambda>preds.
      bindE (eq_sum preds label) (\<lambda>correct.
        Inr (opt_step model inputs label, num_examples, loss_func logits label, correct, label))))))))))))"

text \<open>
  Lines 70 and 89 to 101: the counters and the progress display.  The display divides
  by the batch's example count and by the running count.
\<close>

definition train_classification_update ::
  "loop_state \<Rightarrow> nat \<times> real \<times> nat \<times> int tensor \<Rightarrow> error + loop_state" where
  "train_classification_update st r =
     (case r of (num_examples, loss, correct, label) \<Rightarrow>
      (let st1 = st\<lparr>label_counter := counter_update (label_counter st) (data label),
                     num_batches := num_batches st + 1,
                     count := count st + num_examples,
                     total_loss := total_loss st + loss,
                     total_correct := total_correct st + correct\<rparr>
       in bindE (py_div (total_loss st1) (real (num_batches st1))) (\<lambda>avg_loss.
          bindE (py_div (real correct) (real num_examples)) (\<lambda>acc.
          bindE (py_div (real (total_correct st1)) (real (count st1))) (\<lambda>avg_acc.
            Inr (st1\<lparr>postfix := [(''Loss'', loss), (''AvgLoss'', avg_loss),
                                   (''Acc'', acc), (''AvgAcc'', avg_acc)]\<rparr>))))))"

text \<open>
  The \<^verbatim>\<open>for X, y, _ in tq\<close> loop with its \<^verbatim>\<open>break\<close> at lines 112 and 113: the budget is
  tested after the batch has been accumulated.
\<close>

fun train_classification_loop ::
  "data_config \<Rightarrow> ('m \<Rightarrow> real tensor list \<Rightarrow> real tensor) \<Rightarrow> (real tensor \<Rightarrow> int tensor \<Rightarrow> real)
    \<Rightarrow> ('m \<Rightarrow> real tensor list \<Rightarrow> int tensor \<Rightarrow> 'm) \<Rightarrow> int option
    \<Rightarrow> 'm \<Rightarrow> loop_state \<Rightarrow> batch list \<Rightarrow> error + ('m \<times> loop_state)" where
  "train_classification_loop cfg forward loss_func opt_step steps_per_epoch model st [] = Inr (model, st)"
| "train_classification_loop cfg forward loss_func opt_step steps_per_epoch model st (b # bs) =
     bindE (train_classification_batch cfg forward loss_func opt_step model b) (\<lambda>(model', r).
     bindE (train_classification_update st r) (\<lambda>st'.
       if steps_reached steps_per_epoch (num_batches st') then Inr (model', st')
       else train_classification_loop cfg forward loss_func opt_step steps_per_epoch model' st' bs))"

text \<open>
  \<^verbatim>\<open>train_classification\<close>.  Python returns nothing; what the pass reports is the log
  line \<^verbatim>\<open>'Train AvgLoss: %.5f, AvgAcc: %.5f' % (total_loss / num_batches, total_correct / count)\<close>,
  returned here with the trained model and the final statistics.
\<close>

definition train_classification ::
  "data_config \<Rightarrow> ('m \<Rightarrow> real tensor list \<Rightarrow> real tensor) \<Rightarrow> (real tensor \<Rightarrow> int tensor \<Rightarrow> real)
    \<Rightarrow> ('m \<Rightarrow> real tensor list \<Rightarrow> int tensor \<Rightarrow> 'm) \<Rightarrow> int option
    \<Rightarrow> 'm \<Rightarrow> batch list \<Rightarrow> error + ('m \<times> loop_state \<times> real \<times> real)" where
  "train_classification cfg forward loss_func opt_step steps_per_epoch model train_loader =
     bindE (train_classification_loop cfg forward loss_func opt_step steps_per_epoch model
              init_state train_loader) (\<lambda>(model', st).
     bindE (py_div (total_loss st) (real (num_batches st))) (\<lambda>avg_loss.
     bindE (py_div (real (total_correct st)) (real (count st))) (\<lambda>avg_acc.
       Inr (model', st, avg_loss, avg_acc))))"

text \<open>The per-batch results of a training pass, in order, up to the first failing batch.\<close>

fun train_classification_trace ::
  "data_config \<Rightarrow> ('m \<Rightarrow> real tensor list \<Rightarrow> real tensor) \<Rightarrow> (real tensor \<Rightarrow> int tensor \<Rightarrow> real)
    \<Rightarrow> ('m \<Rightarrow> real tensor list \<Rightarrow> int tensor \<Rightarrow> 'm) \<Rightarrow> 'm \<Rightarrow> batch list
    \<Rightarrow> (nat \<times> real \<times> nat \<times> int tensor) list" where
  "train_classification_trace cfg forward loss_func opt_step model [] = []"
| "train_classification_trace cfg forward loss_func opt_step model (b # bs) =
     (case train_classification_batch cfg forward loss_func opt_step model b of
        Inl e \<Rightarrow> []
      | Inr (model', r) \<Rightarrow> r # train_classification_trace cfg forward loss_func opt_step model' bs)"

text \<open>
  \<^verbatim>\<open>evaluate_classification\<close>, lines 168 to 197: what one batch computes.  The model is
  fixed during evaluation; \<open>loss_func\<close> may be absent (\<^verbatim>\<open>None\<close>, the loss is then 0);
  \<open>sm\<close> is the softmax of one lane.
\<close>

record eval_batch =
  b_entries :: nat
  b_counts :: "nat tensor option"
  b_num_examples :: nat
  b_label :: "int tensor"
  b_score :: "real tensor"
  b_labels :: "real tensor dict"
  b_observers :: "real tensor dict"
  b_loss :: real
  b_correct :: nat

definition evaluate_classification_batch ::
  "data_config \<Rightarrow> (real tensor list \<Rightarrow> real tensor) \<Rightarrow> (real tensor \<Rightarrow> int tensor \<Rightarrow> real) option
    \<Rightarrow> (real list \<Rightarrow> real list) \<Rightarrow> bool \<Rightarrow> batch \<Rightarrow> error + eval_batch" where
  "evaluate_classification_batch cfg model loss_func sm for_training b =
     (case b of (X, y, Z) \<Rightarrow>
      bindE (model_inputs cfg X) (\<lambda>inputs.
      bindE (first (label_names cfg)) (\<lambda>name.
      bindE (getitem y name) (\<lambda>raw.
      bindE (shape0 (long_t raw)) (\<lambda>entries.
      bindE (lookup_mask y name) (\<lambda>label_mask.
      bindE (case label_mask of
               None \<Rightarrow> Inr None
             | Some m \<Rightarrow> if for_training then Inr None
                         else bindE (sum_last_axis m) (\<lambda>c. Inr (Some (squeeze c)))) (\<lambda>counts.
      bindE (flatten_label (long_t raw) label_mask) (\<lambda>label.
      bindE (shape0 label) (\<lambda>num_examples.
      bindE (tensor_to [''non_blocking''] label) (\<lambda>label.
      bindE (flatten_preds (model inputs) label_mask 1) (\<lambda>logits.
      bindE (softmax1 sm logits) (\<lambda>score.
      bindE (mapE (\<lambda>(k, v). bindE (flatten_label v label_mask) (\<lambda>f. Inr (k, f))) y) (\<lambda>flat.
      bindE (max1 logits) (\<lambda>preds.
      bindE (eq_sum preds label) (\<lambda>correct.
        Inr \<lparr>b_entries = entries, b_counts = counts, b_num_examples = num_examples,
             b_label = label, b_score = score, b_labels = flat,
             b_observers = (if for_training then [] else Z),
             b_loss = (case loss_func of None \<Rightarrow> 0 | Some lf \<Rightarrow> lf logits label),
             b_correct = correct\<rparr>)))))))))))))))"

text \<open>Lines 171, 177, 180, 185 to 205: the accumulation and the progress display.\<close>

definition evaluate_classification_update :: "loop_state \<Rightarrow> eval_batch \<Rightarrow> error + loop_state" where
  "evaluate_classification_update st r =
     (let st1 = st\<lparr>entry_count := entry_count st + b_entries r,
                    labels_counts := (case b_counts r of None \<Rightarrow> labels_counts st
                                      | Some c \<Rightarrow> labels_counts st @ [c]),
                    label_counter := counter_update (label_counter st) (data (b_label r)),
                    scores := scores st @ [b_score r],
                    labels := fold (\<lambda>(k, v) d. dict_append k v d) (b_labels r) (labels st),
                    observers := fold (\<lambda>(k, v) d. dict_append k v d) (b_observers r) (observers st),
                    num_batches := num_batches st + 1,
                    count := count st + b_num_examples r,
                    total_loss := total_loss st + b_loss r * real (b_num_examples r),
                    total_correct := total_correct st + b_correct r\<rparr>
      in bindE (py_div (total_loss st1) (real (count st1))) (\<lambda>avg_loss.
         bindE (py_div (real (b_correct r)) (real (b_num_examples r))) (\<lambda>acc.
         bindE (py_div (real (total_correct st1)) (real (count st1))) (\<lambda>avg_acc.
           Inr (st1\<lparr>postfix := [(''Loss'', b_loss r), (''AvgLoss'', avg_loss),
                                  (''Acc'', acc), (''AvgAcc'', avg_acc)]\<rparr>)))))"

text \<open>The \<^verbatim>\<open>for X, y, Z in tq\<close> loop with its \<^verbatim>\<open>break\<close> at lines 213 and 214.\<close>

fun evaluate_classification_loop ::
  "data_config \<Rightarrow> (real tensor list \<Rightarrow> real tensor) \<Rightarrow> (real tensor \<Rightarrow> int tensor \<Rightarrow> real) option
    \<Rightarrow> (real list \<Rightarrow> real list) \<Rightarrow> bool \<Rightarrow> int option \<Rightarrow> loop_state \<Rightarrow> batch list
    \<Rightarrow> error + loop_state" where
  "evaluate_classification_loop cfg model loss_func sm for_training steps_per_epoch st [] = Inr st"
| "evaluate_classification_loop cfg model loss_func sm for_training steps_per_epoch st (b # bs) =
     bindE (evaluate_classification_batch cfg model loss_func sm for_training b) (\<lambda>r.
     bindE (evaluate_classification_update st r) (\<lambda>st'.
       if steps_reached steps_per_epoch (num_batches st') then Inr st'
       else evaluate_classification_loop cfg model loss_func sm for_training steps_per_epoch st' bs))"

text \<open>
  Lines 239 to 250, the regrouping of the concatenated scores and labels:
  \<^verbatim>\<open>
  if len(scores) != entry_count:
      if len(labels_counts):
          labels_counts = np.concatenate(labels_counts)
          scores = ak.unflatten(scores, labels_counts)
          for k, v in labels.items():
              labels[k] = ak.unflatten(v, labels_counts)
      else:
          assert(count % entry_count == 0)
          scores = scores.reshape((entry_count, int(count / entry_count), -1)).transpose((1, 2))
          for k, v in labels.items():
              labels[k] = v.reshape((entry_count, -1))
  \<close>
\<close>

definition regroup ::
  "loop_state \<Rightarrow> real tensor \<Rightarrow> real tensor dict \<Rightarrow> error + (real array \<times> real array dict)" where
  "regroup st scores_arr labels_arr =
     (if len scores_arr \<noteq> entry_count st then
        (if labels_counts st \<noteq> [] then
           bindE (np_concatenate (labels_counts st)) (\<lambda>counts.
           bindE (ak_unflatten scores_arr counts) (\<lambda>s.
           bindE (mapE (\<lambda>(k, v). bindE (ak_unflatten v counts) (\<lambda>u. Inr (k, u))) labels_arr) (\<lambda>ls.
             Inr (s, ls))))
         else if entry_count st = 0 then Inl ZeroDivisionError
         else if count st mod entry_count st \<noteq> 0 then Inl AssertionError
         else
           bindE (np_reshape [Some (entry_count st), Some (count st div entry_count st), None]
                    scores_arr) (\<lambda>r.
           bindE (np_transpose [1, 2] r) (\<lambda>s.
           bindE (mapE (\<lambda>(k, v). bindE (np_reshape [Some (entry_count st), None] v)
                                     (\<lambda>u. Inr (k, Dense u))) labels_arr) (\<lambda>ls.
             Inr (Dense s, ls)))))
      else Inr (Dense scores_arr, map (\<lambda>(k, v). (k, Dense v)) labels_arr))"

text \<open>
  What an evaluation pass returns: the scalar alone when \<^verbatim>\<open>for_training\<close>, otherwise the
  scalar with the scores, labels, targets and observers.
\<close>

datatype eval_result =
    Summary real
  | Full real "real array" "real array dict" "real tensor list dict" "real tensor dict"

text \<open>
  \<^verbatim>\<open>evaluate_classification\<close> (without a dashboard helper).  The external metric library is
  only fed and logged; of the call at line 232 the model keeps the lookup of the label
  array.  The final statistics, with the last progress display, are returned beside the
  result, since the display is where the pass reports its average loss.
\<close>

definition evaluate_classification ::
  "data_config \<Rightarrow> (real tensor list \<Rightarrow> real tensor) \<Rightarrow> (real tensor \<Rightarrow> int tensor \<Rightarrow> real) option
    \<Rightarrow> (real list \<Rightarrow> real list) \<Rightarrow> bool \<Rightarrow> int option \<Rightarrow> batch list
    \<Rightarrow> error + (loop_state \<times> eval_result)" where
  "evaluate_classification cfg model loss_func sm for_training steps_per_epoch test_loader =
     bindE (evaluate_classification_loop cfg model loss_func sm for_training steps_per_epoch
              init_state test_loader) (\<lambda>st.
     bindE (np_concatenate (scores st)) (\<lambda>scores_arr.
     bindE (mapE (\<lambda>(k, v). bindE (concat_arrays v) (\<lambda>c. Inr (k, c))) (labels st)) (\<lambda>labels_arr.
     bindE (first (label_names cfg)) (\<lambda>name.
     bindE (getitem labels_arr name) (\<lambda>metric_truth.
       if for_training then
         bindE (py_div (real (total_correct st)) (real (count st))) (\<lambda>acc.
           Inr (st, Summary acc))
       else
         bindE (regroup st scores_arr labels_arr) (\<lambda>(s, ls).
         bindE (mapE (\<lambda>(k, v). bindE (concat_arrays v) (\<lambda>c. Inr (k, c))) (observers st)) (\<lambda>obs.
         bindE (py_div (real (total_correct st)) (real (count st))) (\<lambda>acc.
           Inr (st, Full acc s ls (targets st) obs)))))))))"


section \<open>Example inputs\<close>

text \<open>
  A two-batch loader (two examples, then one) over a single input and a single label, a
  loss that reads the first logit, and the statistics the two classification passes
  reach on it.
\<close>

definition example_config :: data_config where
  "example_config = \<lparr>input_names = [''x''], label_names = [''y''], target_names = [],
     label_value = [], target_value = []\<rparr>"

definition example_loader :: "batch list" where
  "example_loader =
     [([(''x'', Tensor [2, 2] [1, 0, 0, 1])], [(''y'', Tensor [2] [0, 1])], []),
      ([(''x'', Tensor [1, 2] [3, 0])], [(''y'', Tensor [1] [0])], [])]"

definition example_loss :: "real tensor \<Rightarrow> int tensor \<Rightarrow> real" where
  "example_loss logits label = hd (data logits)"

definition example_train_state :: loop_state where
  "example_train_state = init_state\<lparr>num_batches := 2, count := 3, total_loss := 4,
     total_correct := 3, label_counter := [(0, 2), (1, 1)],
     postfix := [(''Loss'', 3), (''AvgLoss'', 2), (''Acc'', 1), (''AvgAcc'', 1)]\<rparr>"

definition example_eval_state :: loop_state where
  "example_eval_state = init_state\<lparr>num_batches := 2, count := 3, entry_count := 3,
     total_loss := 5, total_correct := 3, label_counter := [(0, 2), (1, 1)],
     scores := [Tensor [2, 2] [1, 0, 0, 1], Tensor [1, 2] [3, 0]],
     labels := [(''y'', [Tensor [2] [0, 1], Tensor [1] [0]])],
     postfix := [(''Loss'', 3), (''AvgLoss'', 5 / 3), (''Acc'', 1), (''AvgAcc'', 1)]\<rparr>"


text \<open>
  A batch that also carries a regression truth \<open>pt\<close> and an observer, under a configuration
  that names \<open>pt\<close> as a target, and the statistics the evaluation pass reaches on it.
\<close>

definition example_target_config :: data_config where
  "example_target_config = example_config\<lparr>target_names := [''pt'']\<rparr>"

definition example_target_loader :: "batch list" where
  "example_target_loader =
     [([(''x'', Tensor [2, 2] [1, 0, 0, 1])],
       [(''y'', Tensor [2] [0, 1]), (''pt'', Tensor [2] [5, 6])],
       [(''obs'', Tensor [2] [7, 8])])]"

definition example_target_state :: loop_state where
  "example_target_state = init_state\<lparr>num_batches := 1, count := 2, entry_count := 2,
     total_loss := 2, total_correct := 2, label_counter := [(0, 1), (1, 1)],
     scores := [Tensor [2, 2] [1, 0, 0, 1]],
     labels := [(''y'', [Tensor [2] [0, 1]]), (''pt'', [Tensor [2] [5, 6]])],
     observers := [(''obs'', [Tensor [2] [7, 8]])],
     postfix := [(''Loss'', 1), (''AvgLoss'', 1), (''Acc'', 1), (''AvgAcc'', 1)]\<rparr>"

text \<open>
  One batch of two entries with two positions each and no mask: the model output has
  shape \<open>[2, 2, 2]\<close> (entries, classes, positions), the label shape \<open>[2, 2]\<close>.
\<close>

definition example_uniform_loader :: "batch list" where
  "example_uniform_loader =
     [([(''x'', Tensor [2, 2, 2] [1, 0, 0, 1, 0, 1, 1, 0])], [(''y'', Tensor [2, 2] [0, 1, 1, 0])], [])]"

definition example_uniform_state :: loop_state where
  "example_uniform_state = init_state\<lparr>num_batches := 1, count := 4, entry_count := 2,
     total_loss := 4, total_correct := 4, label_counter := [(0, 2), (1, 2)],
     scores := [Tensor [4, 2] [1, 0, 0, 1, 0, 1, 1, 0]],
     labels := [(''y'', [Tensor [4] [0, 1, 1, 0]])],
     postfix := [(''Loss'', 1), (''AvgLoss'', 1), (''Acc'', 1), (''AvgAcc'', 1)]\<rparr>"

section \<open>The batch computations without a mask\<close>

text \<open>
  The two batch computations as they read when no mask is supplied: the lookup of the
  mask is left out, both flattenings are called with \<^verbatim>\<open>mask=None\<close>, and the evaluation
  records no per-entry counts.  They are what the batch computations above are compared
  with for a batch that has no mask.
\<close>

definition train_classification_batch_no_mask ::
  "data_config \<Rightarrow> ('m \<Rightarrow> real tensor list \<Rightarrow> real tensor) \<Rightarrow> (real tensor \<Rightarrow> int tensor \<Rightarrow> real)
    \<Rightarrow> ('m \<Rightarrow> real tensor list \<Rightarrow> int tensor \<Rightarrow> 'm) \<Rightarrow> 'm \<Rightarrow> batch
    \<Rightarrow> error + ('m \<times> nat \<times> real \<times> nat \<times> int tensor)" where
  "train_classification_batch_no_mask cfg forward loss_func opt_step model b =
     (case b of (X, y, Z) \<Rightarrow>
      bindE (model_inputs cfg X) (\<lambda>inputs.
      bindE (first (label_names cfg)) (\<lambda>name.
      bindE (getitem y name) (\<lambda>raw.
      bindE (flatten_label (long_t raw) None) (\<lambda>label.
      bindE (shape0 label) (\<lambda>num_examples.
      bindE (tensor_to [''non_blocking''] label) (\<lambda>label.
      bindE (flatten_preds (forward model inputs) None 1) (\<lambda>logits.
      bindE (max1 logits) (\<lambda>preds.
      bindE (eq_sum preds label) (\<lambda>correct.
        Inr (opt_step model inputs label, num_examples, loss_func logits label, correct, label)))))))))))"

definition evaluate_classification_batch_no_mask ::
  "data_config \<Rightarrow> (real tensor list \<Rightarrow> real tensor) \<Rightarrow> (real tensor \<Rightarrow> int tensor \<Rightarrow> real) option
    \<Rightarrow> (real list \<Rightarrow> real list) \<Rightarrow> bool \<Rightarrow> batch \<Rightarrow> error + eval_batch" where
  "evaluate_classification_batch_no_mask cfg model loss_func sm for_training b =
     (case b of (X, y, Z) \<Rightarrow>
      bindE (model_inputs cfg X) (\<lambda>inputs.
      bindE (first (label_names cfg)) (\<lambda>name.
      bindE (getitem y name) (\<lambda>raw.
      bindE (shape0 (long_t raw)) (\<lambda>entries.
      bindE (flatten_label (long_t raw) None) (\<lambda>label.
      bindE (shape0 label) (\<lambda>num_examples.
      bindE (tensor_to [''non_blocking''] label) (\<lambda>label.
      bindE (flatten_preds (model inputs) None 1) (\<lambda>logits.
      bindE (softmax1 sm logits) (\<lambda>score.
      bindE (mapE (\<lambda>(k, v). bindE (flatten_label v None) (\<lambda>f. Inr (k, f))) y) (\<lambda>flat.
      bindE (max1 logits) (\<lambda>preds.
      bindE (eq_sum preds label) (\<lambda>correct.
        Inr \<lparr>b_entries = entries, b_counts = None, b_num_examples = num_examples,
             b_label = label, b_score = score, b_labels = flat,
             b_observers = (if for_training then [] else Z),
             b_loss = (case loss_func of None \<Rightarrow> 0 | Some lf \<Rightarrow> lf logits label),
             b_correct = correct\<rparr>)))))))))))))"

text \<open>
  Two batches of two entries with two positions each and a mask that keeps three
  positions of every batch, and the statistics the evaluation pass reaches on them.
\<close>

definition example_masked_loader :: "batch list" where
  "example_masked_loader =
     [([(''x'', Tensor [2, 2, 2] [1, 0, 0, 1, 0, 1, 1, 0])],
       [(''y'', Tensor [2, 2] [0, 1, 1, 0]), (''y_mask'', Tensor [2, 2] [1, 0, 1, 1])], []),
      ([(''x'', Tensor [2, 2, 2] [5, 0, 0, 6, 0, 7, 8, 0])],
       [(''y'', Tensor [2, 2] [0, 1, 1, 0]), (''y_mask'', Tensor [2, 2] [1, 1, 0, 1])], [])]"

definition example_masked_state :: loop_state where
  "example_masked_state = init_state\<lparr>num_batches := 2, count := 6, entry_count := 4,
     total_loss := 18, total_correct := 6, label_counter := [(0, 4), (1, 2)],
     scores := [Tensor [3, 2] [1, 0, 0, 1, 1, 0], Tensor [3, 2] [5, 0, 0, 6, 7, 0]],
     labels := [(''y'', [Tensor [3] [0, 1, 0], Tensor [3] [0, 1, 0]]),
                (''y_mask'', [Tensor [3] [1, 1, 1], Tensor [3] [1, 1, 1]])],
     labels_counts := [Tensor [2] [1, 2], Tensor [2] [2, 1]],
     postfix := [(''Loss'', 5), (''AvgLoss'', 3), (''Acc'', 1), (''AvgAcc'', 1)]\<rparr>"

definition example_masked_scores :: "real tensor" where
  "example_masked_scores = Tensor [6, 2] [1, 0, 0, 1, 1, 0, 5, 0, 0, 6, 7, 0]"

definition example_masked_labels :: "real tensor dict" where
  "example_masked_labels =
     [(''y'', Tensor [6] [0, 1, 0, 0, 1, 0]), (''y_mask'', Tensor [6] [1, 1, 1, 1, 1, 1])]"

section \<open>Regression targets and the regression evaluation\<close>

text \<open>
  \<^verbatim>\<open>torch.cat((a, b), dim=1)\<close>: both tensors need a second axis and must agree on every
  other axis.
\<close>

definition torch_cat1 :: "'a tensor \<Rightarrow> 'a tensor \<Rightarrow> error + 'a tensor" where
  "torch_cat1 a b = (case (shape a, shape b) of
       (n # c # rest, n' # c' # rest') \<Rightarrow>
         if n = n' \<and> rest = rest'
         then Inr (Tensor (n # (c + c') # rest) (concat (map2 (@) (rows a) (rows b))))
         else Inl RuntimeError
     | _ \<Rightarrow> if ndim a = ndim b then Inl IndexError else Inl RuntimeError)"

text \<open>
  \<^verbatim>\<open>torch.column_stack((a, b))\<close>: a tensor of rank 0 or 1 becomes a column of shape
  \<open>(numel, 1)\<close>, then the tensors are put side by side.
\<close>

definition as_column :: "'a tensor \<Rightarrow> 'a tensor" where
  "as_column t = (if ndim t < 2 then Tensor [length (data t), 1] (data t) else t)"

definition column_stack :: "'a tensor \<Rightarrow> 'a tensor \<Rightarrow> error + 'a tensor" where
  "column_stack a b = torch_cat1 (as_column a) (as_column b)"

text \<open>
  \<^verbatim>\<open>
  for idx, names in enumerate(data_config.target_names):
      if idx == 0:
          target = y[names].float();
      else:
          target = torch.column_stack((target,y[names].float()))
  \<close>
  The variable \<^verbatim>\<open>target\<close> is \<^verbatim>\<open>None\<close> before the first batch and stays so when there is no
  target name; any use of it then raises, so the value is built afresh for every batch.
\<close>

fun build_target_from ::
  "real tensor option \<Rightarrow> nat \<Rightarrow> string list \<Rightarrow> real tensor dict \<Rightarrow> error + real tensor option" where
  "build_target_from target idx [] y = Inr target"
| "build_target_from target idx (names # rest) y =
     bindE (getitem y names) (\<lambda>v.
       if idx = 0 then build_target_from (Some v) (Suc idx) rest y
       else bindE (case target of None \<Rightarrow> Inl TypeError | Some t \<Rightarrow> column_stack t v) (\<lambda>t.
              build_target_from (Some t) (Suc idx) rest y))"

definition build_target :: "data_config \<Rightarrow> real tensor dict \<Rightarrow> error + real tensor option" where
  "build_target cfg y = build_target_from None 0 (target_names cfg) y"

text \<open>An attribute or method of \<^verbatim>\<open>target\<close>: AttributeError when it is \<^verbatim>\<open>None\<close>.\<close>

definition of_target :: "real tensor option \<Rightarrow> (real tensor \<Rightarrow> error + 'a) \<Rightarrow> error + 'a" where
  "of_target target f = (case target of None \<Rightarrow> Inl AttributeError | Some t \<Rightarrow> f t)"

text \<open>
  \<^verbatim>\<open>evaluate_regression\<close>, lines 450 to 488: one batch.  Line 459 reads
  \<^verbatim>\<open>target = target.to(devmnon_blocking=True)\<close>: a call of \<^verbatim>\<open>to\<close> with the single keyword
  argument \<^verbatim>\<open>devmnon_blocking\<close>.
\<close>

record regression_batch =
  r_num_examples :: nat
  r_preds :: "real tensor"
  r_truths :: "real tensor dict"
  r_observers :: "real tensor dict"
  r_loss :: real
  r_abs_err :: real
  r_sqr_err :: real

definition evaluate_regression_batch ::
  "data_config \<Rightarrow> (real tensor list \<Rightarrow> real tensor) \<Rightarrow> (real tensor \<Rightarrow> real tensor \<Rightarrow> real) option
    \<Rightarrow> bool \<Rightarrow> batch \<Rightarrow> error + regression_batch" where
  "evaluate_regression_batch cfg model loss_func for_training b =
     (case b of (X, y, Z) \<Rightarrow>
      bindE (model_inputs cfg X) (\<lambda>inputs.
      bindE (build_target cfg y) (\<lambda>target.
      bindE (of_target target shape0) (\<lambda>num_examples.
      bindE (of_target target (tensor_to [''devmnon_blocking''])) (\<lambda>target.
      (let preds = squeeze (model inputs)
       in bindE (broadcast2 (\<lambda>p t. p - t) preds target) (\<lambda>e.
          bindE (abs_err_sum e) (\<lambda>abs_err.
          bindE (sqr_err_sum e) (\<lambda>sqr_err.
            Inr \<lparr>r_num_examples = num_examples, r_preds = preds, r_truths = y,
                 r_observers = (if for_training then [] else Z),
                 r_loss = (case loss_func of None \<Rightarrow> 0 | Some lf \<Rightarrow> lf preds target),
                 r_abs_err = abs_err, r_sqr_err = sqr_err\<rparr>)))))))))"

text \<open>Lines 463 to 488: the accumulation and the progress display.\<close>

definition evaluate_regression_update :: "loop_state \<Rightarrow> regression_batch \<Rightarrow> error + loop_state" where
  "evaluate_regression_update st r =
     (let st1 = st\<lparr>scores := scores st @ [r_preds r],
                    targets := fold (\<lambda>(k, v) d. dict_append k v d) (r_truths r) (targets st),
                    observers := fold (\<lambda>(k, v) d. dict_append k v d) (r_observers r) (observers st),
                    num_batches := num_batches st + 1,
                    count := count st + r_num_examples r,
                    total_loss := total_loss st + r_loss r * real (r_num_examples r),
                    sum_abs_err := sum_abs_err st + r_abs_err r,
                    sum_sqr_err := sum_sqr_err st + r_sqr_err r\<rparr>
      in bindE (py_div (total_loss st1) (real (count st1))) (\<lambda>avg_loss.
         bindE (py_div (r_sqr_err r) (real (r_num_examples r))) (\<lambda>mse.
         bindE (py_div (sum_sqr_err st1) (real (count st1))) (\<lambda>avg_mse.
         bindE (py_div (r_abs_err r) (real (r_num_examples r))) (\<lambda>mae.
         bindE (py_div (sum_abs_err st1) (real (count st1))) (\<lambda>avg_mae.
           Inr (st1\<lparr>postfix := [(''Loss'', r_loss r), (''AvgLoss'', avg_loss), (''MSE'', mse),
                                  (''AvgMSE'', avg_mse), (''MAE'', mae), (''AvgMAE'', avg_mae)]\<rparr>)))))))"

fun evaluate_regression_loop ::
  "data_config \<Rightarrow> (real tensor list \<Rightarrow> real tensor) \<Rightarrow> (real tensor \<Rightarrow> real tensor \<Rightarrow> real) option
    \<Rightarrow> bool \<Rightarrow> int option \<Rightarrow> loop_state \<Rightarrow> batch list \<Rightarrow> error + loop_state" where
  "evaluate_regression_loop cfg model loss_func for_training steps_per_epoch st [] = Inr st"
| "evaluate_regression_loop cfg model loss_func for_training steps_per_epoch st (b # bs) =
     bindE (evaluate_regression_batch cfg model loss_func for_training b) (\<lambda>r.
     bindE (evaluate_regression_update st r) (\<lambda>st'.
       if steps_reached steps_per_epoch (num_batches st') then Inr st'
       else evaluate_regression_loop cfg model loss_func for_training steps_per_epoch st' bs))"

text \<open>
  What the regression and hybrid evaluation passes return: the scalar alone when
  \<^verbatim>\<open>for_training\<close>, otherwise the scalar with the scores, labels, targets and observers.
  The labels of the regression pass are the \<^verbatim>\<open>defaultdict(list)\<close> it never fills, those of
  the hybrid pass are concatenated arrays.
\<close>

datatype 'l pass_result =
    Scalar real
  | Five real "real tensor" "'l dict" "real tensor dict" "real tensor dict"

text \<open>\<^verbatim>\<open>scores[:, idx]\<close>, of which only the exception matters here.\<close>

definition column_at :: "nat \<Rightarrow> 'a tensor \<Rightarrow> error + unit" where
  "column_at idx t = (case shape t of
       n # c # rest \<Rightarrow> if idx < c then Inr () else Inl IndexError
     | _ \<Rightarrow> Inl IndexError)"

text \<open>
  Lines 516 to 523: for every entry of \<^verbatim>\<open>targets\<close> the metrics call names
  \<^verbatim>\<open>eval_reg_metrics\<close>, which is neither a parameter nor a variable of
  \<^verbatim>\<open>evaluate_regression\<close> nor a global of the module; evaluating the arguments raises
  NameError (after the column lookup, when there are several target names).
\<close>

definition regression_metrics :: "data_config \<Rightarrow> real tensor \<Rightarrow> real tensor dict \<Rightarrow> error + unit" where
  "regression_metrics cfg scores_arr targets_arr =
     (case targets_arr of
        [] \<Rightarrow> Inr ()
      | _ # _ \<Rightarrow> if length (target_names cfg) = 1 then Inl NameError
                 else bindE (column_at 0 scores_arr) (\<lambda>_. Inl NameError))"

text \<open>\<^verbatim>\<open>evaluate_regression\<close> (without a dashboard helper).\<close>

definition evaluate_regression ::
  "data_config \<Rightarrow> (real tensor list \<Rightarrow> real tensor) \<Rightarrow> (real tensor \<Rightarrow> real tensor \<Rightarrow> real) option
    \<Rightarrow> bool \<Rightarrow> int option \<Rightarrow> batch list \<Rightarrow> error + (loop_state \<times> real tensor list pass_result)" where
  "evaluate_regression cfg model loss_func for_training steps_per_epoch test_loader =
     bindE (evaluate_regression_loop cfg model loss_func for_training steps_per_epoch
              init_state test_loader) (\<lambda>st.
     bindE (np_concatenate (scores st)) (\<lambda>scores_arr.
     bindE (mapE (\<lambda>(k, v). bindE (concat_arrays v) (\<lambda>c. Inr (k, c))) (targets st)) (\<lambda>targets_arr.
     bindE (regression_metrics cfg scores_arr targets_arr) (\<lambda>_.
       if for_training then
         bindE (py_div (total_loss st) (real (count st))) (\<lambda>avg. Inr (st, Scalar avg))
       else
         bindE (mapE (\<lambda>(k, v). bindE (concat_arrays v) (\<lambda>c. Inr (k, c))) (observers st)) (\<lambda>obs.
         bindE (py_div (total_loss st) (real (count st))) (\<lambda>avg.
           Inr (st, Five avg scores_arr (labels st) targets_arr obs)))))))"

section \<open>The hybrid loops\<close>

text \<open>
  Lines 654 to 666 of \<^verbatim>\<open>train_hybrid\<close> and 827 to 839 of \<^verbatim>\<open>evaluate_hybrid\<close>: the class
  label, the regression target and the number of examples of a batch.  Counting the
  labels iterates over the label array, which numpy refuses for a 0-d array (TypeError).
\<close>

definition hybrid_truths ::
  "data_config \<Rightarrow> real tensor dict \<Rightarrow> error + (int tensor \<times> real tensor \<times> nat)" where
  "hybrid_truths cfg y =
     bindE (first (label_names cfg)) (\<lambda>name.
     bindE (getitem y name) (\<lambda>raw.
     bindE (flatten_label (long_t raw) None) (\<lambda>label.
     bindE (if ndim label = 0 then Inl TypeError else tensor_to [''non_blocking''] label) (\<lambda>label.
     bindE (build_target cfg y) (\<lambda>target.
     bindE (of_target target (tensor_to [''non_blocking''])) (\<lambda>target.
     bindE (shape0 label) (\<lambda>n1.
     bindE (shape0 target) (\<lambda>n2.
       Inr (label, target, max n1 n2)))))))))"

text \<open>
  Lines 673 to 681 (and 872 to 884): label and target get a second axis when they have
  one axis only, are concatenated into the loss target, and are squeezed.
\<close>

definition make_loss_target ::
  "int tensor \<Rightarrow> real tensor \<Rightarrow> error + (real tensor \<times> int tensor \<times> real tensor)" where
  "make_loss_target label target =
     bindE (if ndim label = 1 then unsqueeze1 label else Inr label) (\<lambda>label.
     bindE (if ndim target = 1 then unsqueeze1 target else Inr target) (\<lambda>target.
     bindE (torch_cat1 (tmap real_of_int label) target) (\<lambda>loss_target.
       Inr (loss_target, squeeze label, squeeze target))))"

text \<open>
  \<^verbatim>\<open>train_hybrid\<close>, lines 650 to 700: what one batch computes before the counters.  The
  loss function returns the total, the classification and the regression loss.
\<close>

record hybrid_batch =
  h_num_examples :: nat
  h_label :: "int tensor"
  h_target :: "real tensor"
  h_output :: "real tensor"
  h_loss :: real
  h_loss_cat :: real
  h_loss_reg :: real

definition train_hybrid_batch ::
  "data_config \<Rightarrow> ('m \<Rightarrow> real tensor list \<Rightarrow> real tensor)
    \<Rightarrow> (real tensor \<Rightarrow> real tensor \<Rightarrow> real \<times> real \<times> real)
    \<Rightarrow> ('m \<Rightarrow> real tensor list \<Rightarrow> real tensor \<Rightarrow> 'm) \<Rightarrow> 'm \<Rightarrow> batch
    \<Rightarrow> error + ('m \<times> hybrid_batch)" where
  "train_hybrid_batch cfg forward loss_func opt_step model b =
     (case b of (X, y, Z) \<Rightarrow>
      bindE (model_inputs cfg X) (\<lambda>inputs.
      bindE (hybrid_truths cfg y) (\<lambda>(label, target, num_examples).
      bindE (make_loss_target label target) (\<lambda>(loss_target, label, target).
        (case loss_func (forward model inputs) loss_target of (loss, loss_cat, loss_reg) \<Rightarrow>
           Inr (opt_step model inputs loss_target,
                \<lparr>h_num_examples = num_examples, h_label = label, h_target = target,
                 h_output = forward model inputs, h_loss = loss, h_loss_cat = loss_cat,
                 h_loss_reg = loss_reg\<rparr>))))))"

text \<open>Lines 656 and 701 to 705: the counters every batch updates.\<close>

definition train_hybrid_count :: "loop_state \<Rightarrow> hybrid_batch \<Rightarrow> loop_state" where
  "train_hybrid_count st r =
     st\<lparr>label_counter := counter_update (label_counter st) (data (h_label r)),
        total_loss := total_loss st + h_loss r,
        total_cat_loss := total_cat_loss st + h_loss_cat r,
        total_reg_loss := total_reg_loss st + h_loss_reg r,
        num_batches := num_batches st + 1,
        count := count st + h_num_examples r\<rparr>"

text \<open>
  Lines 709 to 737: the class prediction from the first block of the output, the
  regression residual from the second, and the progress display.
\<close>

definition train_hybrid_stats :: "data_config \<Rightarrow> loop_state \<Rightarrow> hybrid_batch \<Rightarrow> error + loop_state" where
  "train_hybrid_stats cfg st r =
     bindE (class_slice cfg (h_output r)) (\<lambda>c.
     bindE (max1 (squeeze c)) (\<lambda>pred_cat.
     bindE (eq_sum pred_cat (h_label r)) (\<lambda>correct.
     bindE (regression_slice cfg (h_output r)) (\<lambda>g.
     bindE (broadcast2 (\<lambda>p t. p - t) (squeeze g) (h_target r)) (\<lambda>residual_reg.
     bindE (abs_err_sum residual_reg) (\<lambda>abs_err.
     bindE (sqr_err_sum residual_reg) (\<lambda>sqr_err.
       (let st1 = st\<lparr>total_correct := total_correct st + correct,
                       sum_abs_err := sum_abs_err st + abs_err,
                       sum_sqr_err := sum_sqr_err st + sqr_err\<rparr>
        in bindE (py_div (total_loss st1) (real (num_batches st1))) (\<lambda>avg_loss.
           bindE (py_div (real correct) (real (h_num_examples r))) (\<lambda>acc.
           bindE (py_div (real (total_correct st1)) (real (count st1))) (\<lambda>avg_acc.
           bindE (py_div sqr_err (real (h_num_examples r))) (\<lambda>mse.
           bindE (py_div (sum_sqr_err st1) (real (count st1))) (\<lambda>avg_mse.
           bindE (py_div abs_err (real (h_num_examples r))) (\<lambda>mae.
           bindE (py_div (sum_abs_err st1) (real (count st1))) (\<lambda>avg_mae.
             Inr (st1\<lparr>postfix := [(''Loss'', h_loss r), (''AvgLoss'', avg_loss), (''Acc'', acc),
                                    (''AvgAcc'', avg_acc), (''MSE'', mse), (''AvgMSE'', avg_mse),
                                    (''MAE'', mae), (''AvgMAE'', avg_mae)]\<rparr>))))))))))))))))"

text \<open>
  The \<^verbatim>\<open>for X, y, _ in tq\<close> loop of \<^verbatim>\<open>train_hybrid\<close>.  After the counters, line 708 reads
  \<^verbatim>\<open>if(model_output.dim() == 1) : continue;\<close>, which goes to the next batch; otherwise the
  statistics follow and, at lines 750 and 751, the test of the step budget with its
  \<^verbatim>\<open>break\<close>.
\<close>

fun train_hybrid_loop ::
  "data_config \<Rightarrow> ('m \<Rightarrow> real tensor list \<Rightarrow> real tensor)
    \<Rightarrow> (real tensor \<Rightarrow> real tensor \<Rightarrow> real \<times> real \<times> real)
    \<Rightarrow> ('m \<Rightarrow> real tensor list \<Rightarrow> real tensor \<Rightarrow> 'm) \<Rightarrow> int option
    \<Rightarrow> 'm \<Rightarrow> loop_state \<Rightarrow> batch list \<Rightarrow> error + ('m \<times> loop_state)" where
  "train_hybrid_loop cfg forward loss_func opt_step steps_per_epoch model st [] = Inr (model, st)"
| "train_hybrid_loop cfg forward loss_func opt_step steps_per_epoch model st (b # bs) =
     bindE (train_hybrid_batch cfg forward loss_func opt_step model b) (\<lambda>(model', r).
       if ndim (h_output r) = 1
       then train_hybrid_loop cfg forward loss_func opt_step steps_per_epoch model'
              (train_hybrid_count st r) bs
       else bindE (train_hybrid_stats cfg (train_hybrid_count st r) r) (\<lambda>st'.
              if steps_reached steps_per_epoch (num_batches st') then Inr (model', st')
              else train_hybrid_loop cfg forward loss_func opt_step steps_per_epoch model' st' bs))"

text \<open>
  \<^verbatim>\<open>train_hybrid\<close>.  Python returns nothing; the pass reports the averages of lines 756 to
  761, returned here with the trained model and the final statistics.
\<close>

definition train_hybrid ::
  "data_config \<Rightarrow> ('m \<Rightarrow> real tensor list \<Rightarrow> real tensor)
    \<Rightarrow> (real tensor \<Rightarrow> real tensor \<Rightarrow> real \<times> real \<times> real)
    \<Rightarrow> ('m \<Rightarrow> real tensor list \<Rightarrow> real tensor \<Rightarrow> 'm) \<Rightarrow> int option
    \<Rightarrow> 'm \<Rightarrow> batch list \<Rightarrow> error + ('m \<times> loop_state \<times> (string \<times> real) list)" where
  "train_hybrid cfg forward loss_func opt_step steps_per_epoch model train_loader =
     bindE (train_hybrid_loop cfg forward loss_func opt_step steps_per_epoch model
              init_state train_loader) (\<lambda>(model', st).
     bindE (py_div (total_loss st) (real (num_batches st))) (\<lambda>avg_loss.
     bindE (py_div (total_cat_loss st) (real (num_batches st))) (\<lambda>avg_cat.
     bindE (py_div (total_reg_loss st) (real (num_batches st))) (\<lambda>avg_reg.
     bindE (py_div (real (total_correct st)) (real (count st))) (\<lambda>avg_acc.
     bindE (py_div (sum_sqr_err st) (real (count st))) (\<lambda>avg_mse.
     bindE (py_div (sum_abs_err st) (real (count st))) (\<lambda>avg_mae.
       Inr (model', st, [(''AvgLoss'', avg_loss), (''AvgLoss Cat'', avg_cat),
                         (''AvgLoss Reg'', avg_reg), (''AvgAcc'', avg_acc),
                         (''AvgMSE'', avg_mse), (''AvgMAE'', avg_mae)]))))))))"

text \<open>\<^verbatim>\<open>torch.zeros(shape)\<close>\<close>

definition zeros :: "nat list \<Rightarrow> 'a::zero tensor" where
  "zeros sh = Tensor sh (replicate (prod_list sh) 0)"

text \<open>
  Lines 857 and 893:
  \<^verbatim>\<open>pred_cat_output.shape[0] == num_examples and pred_reg.shape[0] == num_examples\<close>
\<close>

definition shapes_match :: "real tensor \<Rightarrow> real tensor \<Rightarrow> nat \<Rightarrow> error + bool" where
  "shapes_match pred_cat_output pred_reg num_examples =
     bindE (shape0 pred_cat_output) (\<lambda>a.
       if a = num_examples then bindE (shape0 pred_reg) (\<lambda>b. Inr (b = num_examples))
       else Inr False)"

text \<open>
  \<^verbatim>\<open>evaluate_hybrid\<close>, lines 823 to 916: one batch, from the running statistics to the
  updated ones.  The two blocks are sliced out of the raw output at lines 853 and 854,
  before the shapes are compared at line 857; when they do not match, zeros are
  recorded as scores (lines 862 to 867).  Without a loss function the variable \<^verbatim>\<open>loss\<close> is
  still \<^verbatim>\<open>None\<close> at line 886, where adding it to a number raises TypeError.
\<close>

definition evaluate_hybrid_step ::
  "data_config \<Rightarrow> (real tensor list \<Rightarrow> real tensor)
    \<Rightarrow> (real tensor \<Rightarrow> real tensor \<Rightarrow> real \<times> real \<times> real) option
    \<Rightarrow> (real list \<Rightarrow> real list) \<Rightarrow> bool \<Rightarrow> loop_state \<Rightarrow> batch \<Rightarrow> error + loop_state" where
  "evaluate_hybrid_step cfg model loss_func sm for_training st b =
     (case b of (X, y, Z) \<Rightarrow>
      bindE (model_inputs cfg X) (\<lambda>inputs.
      bindE (hybrid_truths cfg y) (\<lambda>(label, target, num_examples).
      bindE (mapE (\<lambda>name. bindE (getitem y name) (\<lambda>v.
                            bindE (flatten_label v None) (\<lambda>f. Inr (name, f)))) (label_names cfg)) (\<lambda>ls.
      bindE (mapE (\<lambda>name. bindE (getitem y name) (\<lambda>v. Inr (name, v))) (target_names cfg)) (\<lambda>ts.
      bindE (class_slice cfg (model inputs)) (\<lambda>c.
      bindE (regression_slice cfg (model inputs)) (\<lambda>g.
      bindE (shapes_match (squeeze c) (squeeze g) num_examples) (\<lambda>ok.
      bindE (if ok
             then bindE (max1 (squeeze c)) (\<lambda>pred_cat.
                  bindE (softmax1 sm (squeeze c)) (\<lambda>score_cat. Inr (pred_cat, score_cat, squeeze g)))
             else Inr (zeros [num_examples], zeros [num_examples, length (label_value cfg)],
                       if 1 < length (target_value cfg)
                       then zeros [num_examples, length (target_value cfg)]
                       else zeros [num_examples])) (\<lambda>(pred_cat, score_cat, score_reg).
      bindE (case loss_func of
               None \<Rightarrow> Inl TypeError
             | Some lf \<Rightarrow>
                 bindE (make_loss_target label target) (\<lambda>(loss_target, label, target).
                   Inr (lf (model inputs) loss_target, label, target))) (\<lambda>((loss, loss_cat, loss_reg), label, target).
      (let st1 = st\<lparr>label_counter := counter_update (label_counter st) (data label),
                     entry_count := entry_count st + num_examples,
                     labels := fold (\<lambda>(k, v) d. dict_append k v d) ls (labels st),
                     targets := fold (\<lambda>(k, v) d. dict_append k v d) ts (targets st),
                     observers := fold (\<lambda>(k, v) d. dict_append k v d)
                                    (if for_training then [] else Z) (observers st),
                     scores_cat := scores_cat st @ [score_cat],
                     scores_reg := scores_reg st @ [score_reg],
                     total_loss := total_loss st + loss,
                     total_cat_loss := total_cat_loss st + loss_cat,
                     total_reg_loss := total_reg_loss st + loss_reg,
                     num_batches := num_batches st + 1,
                     count := count st + num_examples\<rparr>
       in if ok
          then bindE (eq_sum pred_cat label) (\<lambda>correct.
               bindE (broadcast2 (\<lambda>p t. p - t) (squeeze g) target) (\<lambda>residual_reg.
               bindE (abs_err_sum residual_reg) (\<lambda>abs_err.
               bindE (sqr_err_sum residual_reg) (\<lambda>sqr_err.
                 (let st2 = st1\<lparr>total_correct := total_correct st1 + correct,
                                  sum_abs_err := sum_abs_err st1 + abs_err,
                                  sum_sqr_err := sum_sqr_err st1 + sqr_err\<rparr>
                  in bindE (py_div (total_loss st2) (real (num_batches st2))) (\<lambda>avg_loss.
                     bindE (py_div (real correct) (real num_examples)) (\<lambda>acc.
                     bindE (py_div (real (total_correct st2)) (real (count st2))) (\<lambda>avg_acc.
                     bindE (py_div sqr_err (real num_examples)) (\<lambda>mse.
                     bindE (py_div (sum_sqr_err st2) (real (count st2))) (\<lambda>avg_mse.
                     bindE (py_div abs_err (real num_examples)) (\<lambda>mae.
                     bindE (py_div (sum_abs_err st2) (real (count st2))) (\<lambda>avg_mae.
                       Inr (st2\<lparr>postfix := [(''Loss'', loss), (''AvgLoss'', avg_loss),
                                (''Acc'', acc), (''AvgAcc'', avg_acc), (''MSE'', mse),
                                (''AvgMSE'', avg_mse), (''MAE'', mae), (''AvgMAE'', avg_mae)]\<rparr>)))))))))))))
          else Inr st1)))))))))))"

text \<open>The \<^verbatim>\<open>for X, y, Z in tq\<close> loop of \<^verbatim>\<open>evaluate_hybrid\<close> with its \<^verbatim>\<open>break\<close> at lines 924 and 925.\<close>

fun evaluate_hybrid_loop ::
  "data_config \<Rightarrow> (real tensor list \<Rightarrow> real tensor)
    \<Rightarrow> (real tensor \<Rightarrow> real tensor \<Rightarrow> real \<times> real \<times> real) option
    \<Rightarrow> (real list \<Rightarrow> real list) \<Rightarrow> bool \<Rightarrow> int option \<Rightarrow> loop_state \<Rightarrow> batch list
    \<Rightarrow> error + loop_state" where
  "evaluate_hybrid_loop cfg model loss_func sm for_training steps_per_epoch st [] = Inr st"
| "evaluate_hybrid_loop cfg model loss_func sm for_training steps_per_epoch st (b # bs) =
     bindE (evaluate_hybrid_step cfg model loss_func sm for_training st b) (\<lambda>st'.
       if steps_reached steps_per_epoch (num_batches st') then Inr st'
       else evaluate_hybrid_loop cfg model loss_func sm for_training steps_per_epoch st' bs)"

text \<open>\<^verbatim>\<open>np.concatenate((a, b), axis=1)\<close>\<close>

definition np_concatenate_axis1 :: "'a tensor \<Rightarrow> 'a tensor \<Rightarrow> error + 'a tensor" where
  "np_concatenate_axis1 a b =
     (case torch_cat1 a b of Inl e \<Rightarrow> Inl ValueError | Inr t \<Rightarrow> Inr t)"

text \<open>
  Lines 954 to 958: with several target names the metrics of every target read the
  column \<^verbatim>\<open>scores_reg[:,idx]\<close>; the external metric library is only fed and logged.
\<close>

fun hybrid_metrics :: "data_config \<Rightarrow> real tensor \<Rightarrow> nat \<Rightarrow> 'a list \<Rightarrow> error + unit" where
  "hybrid_metrics cfg reg_arr idx [] = Inr ()"
| "hybrid_metrics cfg reg_arr idx (t # ts) =
     bindE (if length (target_names cfg) = 1 then Inr () else column_at idx reg_arr) (\<lambda>_.
       hybrid_metrics cfg reg_arr (Suc idx) ts)"

text \<open>\<^verbatim>\<open>evaluate_hybrid\<close> (without a dashboard helper), lines 945 to 976.\<close>

definition evaluate_hybrid ::
  "data_config \<Rightarrow> (real tensor list \<Rightarrow> real tensor)
    \<Rightarrow> (real tensor \<Rightarrow> real tensor \<Rightarrow> real \<times> real \<times> real) option
    \<Rightarrow> (real list \<Rightarrow> real list) \<Rightarrow> bool \<Rightarrow> int option \<Rightarrow> batch list
    \<Rightarrow> error + (loop_state \<times> real tensor pass_result)" where
  "evaluate_hybrid cfg model loss_func sm for_training steps_per_epoch test_loader =
     bindE (evaluate_hybrid_loop cfg model loss_func sm for_training steps_per_epoch
              init_state test_loader) (\<lambda>st.
     bindE (np_concatenate (scores_cat st)) (\<lambda>sc.
     bindE (np_concatenate (scores_reg st)) (\<lambda>sr.
     bindE (mapE (\<lambda>(k, v). bindE (concat_arrays v) (\<lambda>c. Inr (k, c))) (labels st)) (\<lambda>labels_arr.
     bindE (mapE (\<lambda>(k, v). bindE (concat_arrays v) (\<lambda>c. Inr (k, c))) (targets st)) (\<lambda>targets_arr.
     bindE (first (label_names cfg)) (\<lambda>name.
     bindE (getitem labels_arr name) (\<lambda>metric_truth.
     bindE (hybrid_metrics cfg (squeeze sr) 0 targets_arr) (\<lambda>_.
       if for_training then
         bindE (py_div (total_loss st) (real (count st))) (\<lambda>avg. Inr (st, Scalar avg))
       else
         bindE (mapE (\<lambda>(k, v). bindE (concat_arrays v) (\<lambda>c. Inr (k, c))) (observers st)) (\<lambda>obs.
           if ndim (squeeze sr) \<noteq> 0 \<and> ndim (squeeze sc) \<noteq> 0 then
             bindE (np_reshape [Some (len (squeeze sr)), Some (length (target_names cfg))]
                      (squeeze sr)) (\<lambda>scores_reg2.
             bindE (np_concatenate_axis1 (squeeze sc) scores_reg2) (\<lambda>scores_arr.
             bindE (py_div (total_loss st) (real (count st))) (\<lambda>avg.
               Inr (st, Five avg scores_arr labels_arr targets_arr obs))))
           else
             bindE (py_div (total_loss st) (real (count st))) (\<lambda>avg.
               Inr (st, Five avg (squeeze sr) labels_arr targets_arr obs)))))))))))"

section \<open>Example inputs of the hybrid loops\<close>

text \<open>
  A configuration with two classes and one regression target, a loss that reads the
  first element of the raw output, a batch of two examples whose raw output has the
  declared layout (shape \<open>[2, 3]\<close>), and a batch whose raw output has one axis only.
\<close>

definition example_hybrid_config :: data_config where
  "example_hybrid_config = \<lparr>input_names = [''x''], label_names = [''y''], target_names = [''pt''],
     label_value = [''a'', ''b''], target_value = [''pt'']\<rparr>"

definition example_hybrid_loss :: "real tensor \<Rightarrow> real tensor \<Rightarrow> real \<times> real \<times> real" where
  "example_hybrid_loss model_output loss_target = (hd (data model_output), 0, 0)"

definition example_regular_batch :: batch where
  "example_regular_batch =
     ([(''x'', Tensor [2, 3] [1, 0, 5, 0, 1, 6])],
      [(''y'', Tensor [2] [0, 1]), (''pt'', Tensor [2] [5, 6])], [])"

definition example_degenerate_batch :: batch where
  "example_degenerate_batch =
     ([(''x'', Tensor [3] [1, 2, 3])],
      [(''y'', Tensor [2] [0, 1]), (''pt'', Tensor [2] [5, 6])], [])"

section \<open>Auxiliary facts about lists and indices\<close>

lemma zip_as_map_upt:
  "length xs = length ms \<Longrightarrow> zip xs ms = map (\<lambda>i. (xs ! i, ms ! i)) [0..<length xs]"
  by (rule nth_equalityI) auto

lemma kept_by_mask:
  assumes "length xs = length ms"
  shows "map fst (filter snd (zip xs ms)) = map ((!) xs) (filter (\<lambda>i. ms ! i) [0..<length xs])"
  by (simp add: zip_as_map_upt[OF assms] filter_map o_def)

lemma map_shift_upt: "map (\<lambda>c. n + c) [0..<L] = [n..<n + L]"
  by (rule nth_equalityI) auto

lemma product_upt_flat:
  "map (\<lambda>(r, c). r * L + c) (List.product [0..<N] [0..<L]) = [0..<N * L]"
proof (induction N)
  case 0
  then show ?case by simp
next
  case (Suc N)
  have p: "List.product [0..<Suc N] [0..<L] = List.product [0..<N] [0..<L] @ map (Pair N) [0..<L]"
    by (simp add: product_concat_map)
  have "map (\<lambda>(r, c). r * L + c) (List.product [0..<Suc N] [0..<L])
      = map (\<lambda>(r, c). r * L + c) (List.product [0..<N] [0..<L]) @ map (\<lambda>c. N * L + c) [0..<L]"
    unfolding p by (simp add: o_def)
  also have "\<dots> = [0..<N * L] @ [N * L..<N * L + L]"
    unfolding Suc.IH map_shift_upt ..
  also have "\<dots> = [0..<N * L + L]"
    by (rule upt_add_eq_append[symmetric]) simp
  also have "N * L + L = Suc N * L" by simp
  finally show ?case .
qed

lemma take_drop_map_upt:
  "i * K + K \<le> M \<Longrightarrow> take K (drop (i * K) (map f [0..<M])) = map (\<lambda>k. f (i * K + k)) [0..<K]"
  by (rule nth_equalityI) (auto simp: add.commute)

lemma idx3:
  assumes "(k::nat) < K" "0 < (L::nat)"
  shows "((i::nat) * K + k) div (L * K) = i div L"
    and "((i * K + k) mod (L * K)) div K = i mod L"
    and "((i * K + k) mod (L * K)) mod K = k"
proof -
  have K: "0 < K" using assms by simp
  have d: "(i * K + k) div K = i" using assms K by simp
  have m: "(i * K + k) mod K = k" using assms by simp
  show "(i * K + k) div (L * K) = i div L"
    using d by (simp add: mult.commute[of L K] div_mult2_eq)
  have e: "(i * K + k) mod (L * K) = K * (i mod L) + k"
    using d m by (simp add: mult.commute[of L K] mod_mult2_eq)
  show "((i * K + k) mod (L * K)) div K = i mod L"
    using assms K by (simp add: e)
  show "((i * K + k) mod (L * K)) mod K = k"
    using assms by (simp add: e)
qed

lemma take1_drop: "i < length xs \<Longrightarrow> take (Suc 0) (drop i xs) = [xs ! i]"
  by (simp add: take_Suc_conv_app_nth)

lemma rows_view_flat: "rows (view_flat t) = map (\<lambda>i. [data t ! i]) [0..<length (data t)]"
  by (simp add: rows_def view_flat_def take1_drop)

lemma concat_singletons: "concat (map (\<lambda>i. [f i]) xs) = map f xs"
  by (induction xs) auto

lemma mask_index_rank1:
  assumes "shape t = n # sh" "shape m = [n]"
  shows "mask_index t m = Inr (Tensor (length (map fst (filter snd (zip (rows t) (data m)))) # sh)
            (concat (map fst (filter snd (zip (rows t) (data m))))))"
  using assms by (simp add: mask_index_def Let_def)

lemma flatten_label_masked:
  assumes "shape label = [N, L]" "length (data label) = N * L"
      and "length (data m) = N * L"
  shows "flatten_label label (Some m) =
     Inr (Tensor [length (filter (\<lambda>i. data m ! i) [0..<N * L])]
            (map (\<lambda>i. data label ! i) (filter (\<lambda>i. data m ! i) [0..<N * L])))"
proof -
  let ?kept = "filter (\<lambda>i. data m ! i) [0..<N * L]"
  let ?t = "view_flat label" and ?m = "view_flat m"
  have dm: "data ?m = data m" by (simp add: view_flat_def)
  have r: "rows ?t = map (\<lambda>i. [data label ! i]) [0..<N * L]"
    by (simp add: rows_view_flat assms(2))
  have len: "length (rows ?t) = length (data m)"
    by (simp add: r assms(3))
  have k0: "map fst (filter snd (zip (rows ?t) (data m)))
       = map ((!) (rows ?t)) (filter (\<lambda>i. data m ! i) [0..<length (rows ?t)])"
    by (rule kept_by_mask[OF len])
  have k1: "[0..<length (rows ?t)] = [0..<N * L]"
    by (simp add: r)
  have k2: "map ((!) (rows ?t)) ?kept = map (\<lambda>i. [data label ! i]) ?kept"
    unfolding r by (rule map_cong[OF refl]) simp
  have k: "map fst (filter snd (zip (rows ?t) (data ?m))) = map (\<lambda>i. [data label ! i]) ?kept"
    unfolding dm k0 k1 k2 ..
  have st: "shape ?t = N * L # []" by (simp add: view_flat_def assms(2))
  have sm: "shape ?m = [N * L]" by (simp add: view_flat_def assms(3))
  have "flatten_label label (Some m) = mask_index ?t ?m"
    by (simp add: flatten_label_def ndim_def assms(1))
  also have "\<dots> = Inr (Tensor [length (map (\<lambda>i. [data label ! i]) ?kept)]
            (concat (map (\<lambda>i. [data label ! i]) ?kept)))"
    unfolding mask_index_rank1[OF st sm] k ..
  finally show ?thesis by simp
qed

lemma unravel3: "unravel [N, L, K] p = [p div (L * K), (p mod (L * K)) div K, (p mod (L * K)) mod K]"
  by simp

lemma transposed_item:
  assumes "k < K" "i < N * L"
  shows "ravel [N, K, L] (swap 1 2 (unravel [N, L, K] (i * K + k)))
       = ravel [N, K, L] [i div L, k, i mod L]"
proof -
  have L: "0 < L" using assms(2) by (cases L) auto
  show ?thesis
    unfolding unravel3 idx3[OF assms(1) L] by (simp add: swap_def)
qed

lemma transpose_rank3:
  assumes "shape preds = [N, K, L]" "length (data preds) = N * K * L"
  shows "transpose_t 1 2 preds = Inr (Tensor [N, L, K]
      (map (\<lambda>p. data preds ! ravel [N, K, L] (swap 1 2 (unravel [N, L, K] p))) [0..<N * K * L]))"
  by (simp add: transpose_t_def ndim_def assms swap_def)

lemma rows_transposed:
  assumes "0 < K"
  shows "rows (Tensor [N * L, K]
      (map (\<lambda>p. data preds ! ravel [N, K, L] (swap 1 2 (unravel [N, L, K] p))) [0..<N * K * L]))
    = map (\<lambda>i. map (\<lambda>k. item_at (Tensor [N, K, L] (data preds)) [i div L, k, i mod L]) [0..<K]) [0..<N * L]"
proof -
  let ?g = "\<lambda>p. data preds ! ravel [N, K, L] (swap 1 2 (unravel [N, L, K] p))"
  have row: "take K (drop (i * K) (map ?g [0..<N * K * L]))
      = map (\<lambda>k. item_at (Tensor [N, K, L] (data preds)) [i div L, k, i mod L]) [0..<K]"
    if i: "i < N * L" for i
  proof -
    have "Suc i \<le> N * L" using i by simp
    then have "Suc i * K \<le> (N * L) * K" by (rule mult_le_mono1)
    then have le: "i * K + K \<le> N * K * L" by (simp add: mult.commute mult.left_commute)
    have "take K (drop (i * K) (map ?g [0..<N * K * L])) = map (\<lambda>k. ?g (i * K + k)) [0..<K]"
      by (rule take_drop_map_upt[OF le])
    also have "\<dots> = map (\<lambda>k. item_at (Tensor [N, K, L] (data preds)) [i div L, k, i mod L]) [0..<K]"
    proof (rule map_cong[OF refl])
      fix k assume "k \<in> set [0..<K]"
      then have k: "k < K" by simp
      show "?g (i * K + k) = item_at (Tensor [N, K, L] (data preds)) [i div L, k, i mod L]"
        unfolding transposed_item[OF k i] by (simp add: item_at_def)
    qed
    finally show ?thesis .
  qed
  have "rows (Tensor [N * L, K] (map ?g [0..<N * K * L]))
      = map (\<lambda>i. take K (drop (i * K) (map ?g [0..<N * K * L]))) [0..<N * L]"
    by (simp add: rows_def)
  also have "\<dots> = map (\<lambda>i. map (\<lambda>k. item_at (Tensor [N, K, L] (data preds)) [i div L, k, i mod L]) [0..<K]) [0..<N * L]"
  proof (rule map_cong[OF refl])
    fix i assume "i \<in> set [0..<N * L]"
    then have "i < N * L" by simp
    from row[OF this]
    show "take K (drop (i * K) (map ?g [0..<N * K * L]))
      = map (\<lambda>k. item_at (Tensor [N, K, L] (data preds)) [i div L, k, i mod L]) [0..<K]" .
  qed
  finally show ?thesis .
qed

lemma flatten_preds_masked:
  assumes sh: "shape preds = [N, K, L]" and ld: "length (data preds) = N * K * L"
      and lm: "length (data m) = N * L" and K: "0 < K"
  shows "flatten_preds preds (Some m) 1 =
     Inr (Tensor [length (filter (\<lambda>i. data m ! i) [0..<N * L]), K]
            (concat (map (\<lambda>i. map (\<lambda>k. item_at preds [i div L, k, i mod L]) [0..<K])
                (filter (\<lambda>i. data m ! i) [0..<N * L]))))"
proof -
  let ?kept = "filter (\<lambda>i. data m ! i) [0..<N * L]"
  let ?g = "\<lambda>p. data preds ! ravel [N, K, L] (swap 1 2 (unravel [N, L, K] p))"
  let ?t1 = "Tensor [N, L, K] (map ?g [0..<N * K * L])"
  let ?t2 = "Tensor [N * L, K] (map ?g [0..<N * K * L])"
  let ?row = "\<lambda>i. map (\<lambda>k. item_at preds [i div L, k, i mod L]) [0..<K]"
  have p: "Tensor [N, K, L] (data preds) = preds"
    using sh by (cases preds) simp
  have nd: "ndim preds - 1 = 2" "ndim preds > 2"
    by (simp_all add: ndim_def sh)
  have t1: "transpose_t 1 2 preds = Inr ?t1"
    by (rule transpose_rank3[OF sh ld])
  have dv: "N * K * L = (N * L) * K" by (simp add: mult.commute mult.left_commute)
  have t2: "view_rows (last (shape ?t1)) ?t1 = Inr ?t2"
    using K by (simp add: view_rows_def dv)
  have r: "rows ?t2 = map ?row [0..<N * L]"
    using rows_transposed[OF K, of N L preds] unfolding p .
  have len: "length (rows ?t2) = length (data m)"
    unfolding r by (simp add: lm)
  have k: "map fst (filter snd (zip (rows ?t2) (data (view_flat m)))) = map ?row ?kept"
  proof -
    have "map fst (filter snd (zip (rows ?t2) (data m)))
        = map ((!) (rows ?t2)) (filter (\<lambda>i. data m ! i) [0..<length (rows ?t2)])"
      by (rule kept_by_mask[OF len])
    also have "[0..<length (rows ?t2)] = [0..<N * L]" unfolding r by simp
    also have "map ((!) (rows ?t2)) ?kept = map ?row ?kept"
      unfolding r by (rule map_cong[OF refl]) simp
    finally show ?thesis by (simp add: view_flat_def)
  qed
  have st: "shape ?t2 = N * L # [K]" by simp
  have sm: "shape (view_flat m) = [N * L]" by (simp add: view_flat_def lm)
  have "flatten_preds preds (Some m) 1 = mask_index ?t2 (view_flat m)"
    unfolding flatten_preds_def using nd(2) by (simp only: nd(1) t1 t2 bindE_def if_True sum.case option.case)
  also have "\<dots> = Inr (Tensor [length (map ?row ?kept), K] (concat (map ?row ?kept)))"
    unfolding mask_index_rank1[OF st sm] k ..
  finally show ?thesis by simp
qed

lemma coords_flat:
  "map (\<lambda>(r, c). F r c) (filter (\<lambda>(r, c). P (r * L + c)) (List.product [0..<N] [0..<L]))
     = map (\<lambda>i. F (i div L) (i mod L)) (filter P [0..<N * L])"
proof -
  let ?h = "\<lambda>(r, c). r * L + c"
  let ?xs = "List.product [0..<N] [0..<L]"
  have "map (\<lambda>i. F (i div L) (i mod L)) (filter P [0..<N * L])
      = map (\<lambda>i. F (i div L) (i mod L)) (filter P (map ?h ?xs))"
    by (simp only: product_upt_flat)
  also have "\<dots> = map ((\<lambda>i. F (i div L) (i mod L)) \<circ> ?h) (filter (P \<circ> ?h) ?xs)"
    by (simp only: filter_map map_map)
  also have "filter (P \<circ> ?h) ?xs = filter (\<lambda>(r, c). P (r * L + c)) ?xs"
    by (rule filter_cong[OF refl]) auto
  also have "map ((\<lambda>i. F (i div L) (i mod L)) \<circ> ?h) (filter (\<lambda>(r, c). P (r * L + c)) ?xs)
      = map (\<lambda>(r, c). F r c) (filter (\<lambda>(r, c). P (r * L + c)) ?xs)"
    by (rule map_cong[OF refl]) auto
  finally show ?thesis by simp
qed

lemma row_of_concat:
  "\<forall>x \<in> set xs. length x = K \<Longrightarrow> i < length xs \<Longrightarrow> take K (drop (i * K) (concat xs)) = xs ! i"
proof (induction xs arbitrary: i)
  case Nil
  then show ?case by simp
next
  case (Cons x xs)
  show ?case
  proof (cases i)
    case 0
    then show ?thesis using Cons.prems by simp
  next
    case (Suc j)
    have "drop (Suc j * K) (x @ concat xs) = drop (j * K) (concat xs)"
      using Cons.prems(1) by simp
    then show ?thesis using Cons Suc by simp
  qed
qed

lemma rows_concat:
  assumes "\<forall>x \<in> set xs. length x = K"
  shows "rows (Tensor [length xs, K] (concat xs)) = xs"
  by (rule nth_equalityI) (simp_all add: rows_def row_of_concat[OF assms])

lemma kept_coords_flat:
  assumes "shape m = [N, L]"
  shows "map (\<lambda>(r, c). F r c) (kept_coords m)
       = map (\<lambda>i. F (i div L) (i mod L)) (filter (\<lambda>i. data m ! i) [0..<N * L])"
proof -
  have "kept_coords m = filter (\<lambda>(r, c). data m ! (r * L + c)) (List.product [0..<N] [0..<L])"
    unfolding kept_coords_def by (rule filter_cong) (auto simp: assms item_at_def)
  then show ?thesis by (simp only: coords_flat)
qed

lemma length_kept_coords:
  assumes "shape m = [N, L]"
  shows "length (kept_coords m) = length (filter (\<lambda>i. data m ! i) [0..<N * L])"
  using arg_cong[OF kept_coords_flat[OF assms, of "\<lambda>r c. ()"], of length] by simp

lemma item_at_flat2:
  assumes "shape t = [N, L]" "i < N * L"
  shows "item_at t [i div L, i mod L] = data t ! i"
  by (simp add: item_at_def assms(1))

lemma flatten_alignment_rank3:
  assumes "shape label = [N, L]" "length (data label) = N * L"
      and "shape m = [N, L]" "length (data m) = N * L"
      and "shape preds = [N, K, L]" "length (data preds) = N * K * L" "0 < K"
  shows "\<exists>fl fp. flatten_label label (Some m) = Inr fl \<and> flatten_preds preds (Some m) 1 = Inr fp
      \<and> len fl = length (kept_coords m) \<and> len fp = length (kept_coords m)
      \<and> data fl = map (\<lambda>(r, c). item_at label [r, c]) (kept_coords m)
      \<and> rows fp = map (\<lambda>(r, c). map (\<lambda>k. item_at preds [r, k, c]) [0..<K]) (kept_coords m)"
proof -
  let ?kept = "filter (\<lambda>i. data m ! i) [0..<N * L]"
  let ?row = "\<lambda>i. map (\<lambda>k. item_at preds [i div L, k, i mod L]) [0..<K]"
  let ?fl = "Tensor [length ?kept] (map (\<lambda>i. data label ! i) ?kept)"
  let ?fp = "Tensor [length ?kept, K] (concat (map ?row ?kept))"
  have a: "flatten_label label (Some m) = Inr ?fl"
    by (rule flatten_label_masked[OF assms(1,2,4)])
  have b: "flatten_preds preds (Some m) 1 = Inr ?fp"
    by (rule flatten_preds_masked[OF assms(5,6,4,7)])
  have n: "length (kept_coords m) = length ?kept"
    by (rule length_kept_coords[OF assms(3)])
  have "map (\<lambda>i. data label ! i) ?kept = map (\<lambda>i. item_at label [i div L, i mod L]) ?kept"
    by (rule map_cong[OF refl]) (simp add: item_at_flat2[OF assms(1)])
  also have "\<dots> = map (\<lambda>(r, c). item_at label [r, c]) (kept_coords m)"
    by (rule kept_coords_flat[OF assms(3), symmetric])
  finally have c: "data ?fl = map (\<lambda>(r, c). item_at label [r, c]) (kept_coords m)" by simp
  have "rows ?fp = map ?row ?kept"
    using rows_concat[of "map ?row ?kept" K] by simp
  also have "\<dots> = map (\<lambda>(r, c). map (\<lambda>k. item_at preds [r, k, c]) [0..<K]) (kept_coords m)"
    by (rule kept_coords_flat[OF assms(3), symmetric])
  finally have d: "rows ?fp = map (\<lambda>(r, c). map (\<lambda>k. item_at preds [r, k, c]) [0..<K]) (kept_coords m)" .
  have e: "len ?fl = length (kept_coords m)" "len ?fp = length (kept_coords m)"
    by (simp_all add: len_def n)
  show ?thesis using a b c d e by blast
qed

lemma flatten_preds_low_rank:
  "ndim preds \<le> 2 \<Longrightarrow> flatten_preds preds msk label_axis = Inr preds"
  by (simp add: flatten_preds_def)

text \<open>
  Claim C1, as amended.  For a rank-2 label and a boolean mask of the same shape \<open>[N, L]\<close>, and a
  prediction tensor of shape \<open>[N, K, L]\<close> (class axis 1), \<open>flatten_label\<close> and
  \<open>flatten_preds\<close> with the same mask both succeed, give results of the same length, and
  position \<open>i\<close> of both holds the entries of the \<open>i\<close>-th kept (row, col) coordinate of
  the mask in row-major order: the label at (row, col) and the \<open>K\<close> class scores at
  (row, \<open>k\<close>, col).  A prediction of rank 2 or less is returned by \<open>flatten_preds\<close> as it
  is, whatever the mask and the class axis: neither flattened nor masked.
\<close>

theorem flatten_alignment:
  "(shape label = [N, L] \<and> length (data label) = N * L
      \<and> shape m = [N, L] \<and> length (data m) = N * L
      \<and> shape preds = [N, K, L] \<and> length (data preds) = N * K * L \<and> 0 < K
    \<longrightarrow> (\<exists>fl fp. flatten_label label (Some m) = Inr fl \<and> flatten_preds preds (Some m) 1 = Inr fp
      \<and> len fl = length (kept_coords m) \<and> len fp = length (kept_coords m)
      \<and> data fl = map (\<lambda>(r, c). item_at label [r, c]) (kept_coords m)
      \<and> rows fp = map (\<lambda>(r, c). map (\<lambda>k. item_at preds [r, k, c]) [0..<K]) (kept_coords m)))
   \<and> (ndim preds2 \<le> 2 \<longrightarrow> flatten_preds preds2 msk label_axis = Inr preds2)"
proof (intro conjI impI)
  assume a: "shape label = [N, L] \<and> length (data label) = N * L
      \<and> shape m = [N, L] \<and> length (data m) = N * L
      \<and> shape preds = [N, K, L] \<and> length (data preds) = N * K * L \<and> 0 < K"
  show "\<exists>fl fp. flatten_label label (Some m) = Inr fl \<and> flatten_preds preds (Some m) 1 = Inr fp
      \<and> len fl = length (kept_coords m) \<and> len fp = length (kept_coords m)
      \<and> data fl = map (\<lambda>(r, c). item_at label [r, c]) (kept_coords m)
      \<and> rows fp = map (\<lambda>(r, c). map (\<lambda>k. item_at preds [r, k, c]) [0..<K]) (kept_coords m)"
    by (rule flatten_alignment_rank3[of label N L m preds K]) (simp_all add: a)
next
  assume "ndim preds2 \<le> 2"
  then show "flatten_preds preds2 msk label_axis = Inr preds2"
    by (rule flatten_preds_low_rank)
qed

theorem flatten_alignment_witness:
  "(\<exists>fl fp. flatten_label (Tensor [2, 2] [1, 2, 3, 4 :: int]) (Some (Tensor [2, 2] [True, False, True, True])) = Inr fl
      \<and> flatten_preds (Tensor [2, 2, 2] [1, 2, 3, 4, 5, 6, 7, 8 :: int]) (Some (Tensor [2, 2] [True, False, True, True])) 1 = Inr fp
      \<and> len fl = length (kept_coords (Tensor [2, 2] [True, False, True, True]))
      \<and> len fp = length (kept_coords (Tensor [2, 2] [True, False, True, True]))
      \<and> data fl = map (\<lambda>(r, c). item_at (Tensor [2, 2] [1, 2, 3, 4 :: int]) [r, c])
            (kept_coords (Tensor [2, 2] [True, False, True, True]))
      \<and> rows fp = map (\<lambda>(r, c). map (\<lambda>k. item_at (Tensor [2, 2, 2] [1, 2, 3, 4, 5, 6, 7, 8 :: int]) [r, k, c]) [0..<2])
            (kept_coords (Tensor [2, 2] [True, False, True, True])))
   \<and> ndim (Tensor [2, 2] [10, 20, 30, 40 :: int]) \<le> 2
   \<and> flatten_preds (Tensor [2, 2] [10, 20, 30, 40 :: int]) (Some (Tensor [2, 2] [True, False, True, True])) 1
        = Inr (Tensor [2, 2] [10, 20, 30, 40])"
  using flatten_alignment[of "Tensor [2, 2] [1, 2, 3, 4 :: int]" 2 2
      "Tensor [2, 2] [True, False, True, True]" "Tensor [2, 2, 2] [1, 2, 3, 4, 5, 6, 7, 8 :: int]" 2
      "Tensor [2, 2] [10, 20, 30, 40 :: int]" "Some (Tensor [2, 2] [True, False, True, True])" 1]
  by (simp add: ndim_def)

lemma flatten_example:
  "flatten_label (Tensor [2, 2] [1, 2, 3, 4 :: int]) (Some (Tensor [2, 2] [True, False, True, True]))
      = Inr (Tensor [3] [1, 3, 4])"
  "flatten_preds (Tensor [2, 2, 2] [1, 2, 3, 4, 5, 6, 7, 8 :: int]) (Some (Tensor [2, 2] [True, False, True, True])) 1
      = Inr (Tensor [3, 2] [1, 3, 5, 7, 6, 8])"
  "kept_coords (Tensor [2, 2] [True, False, True, True]) = [(0, 0), (1, 0), (1, 1)]"
  by code_simp+

text \<open>
  Claim C1 as stated takes a prediction of the same (rank-2) shape as the label.
  \<open>flatten_preds\<close> only flattens and masks a prediction of rank above 2, so such a prediction
  comes back unchanged: for a 2 x 2 label with every position kept the flattened label
  is the rank-1 tensor of its 4 entries and the flattened prediction is the 2 x 2
  prediction itself, of length 2.
\<close>

theorem flatten_equal_shape_counterexample:
  "flatten_label (Tensor [2, 2] [1, 2, 3, 4 :: int]) (Some (Tensor [2, 2] [True, True, True, True]))
      = Inr (Tensor [4] [1, 2, 3, 4])
   \<and> flatten_preds (Tensor [2, 2] [10, 20, 30, 40 :: int]) (Some (Tensor [2, 2] [True, True, True, True])) 1
      = Inr (Tensor [2, 2] [10, 20, 30, 40])
   \<and> len (Tensor [4] [1, 2, 3, 4 :: int]) \<noteq> len (Tensor [2, 2] [10, 20, 30, 40 :: int])"
  by (simp add: flatten_label_def flatten_preds_def ndim_def view_flat_def mask_index_def rows_def len_def upt_rec)

lemma rows_rank2:
  assumes "shape t = [R, C]" "length (data t) = R * C" "i < R"
  shows "length (rows t ! i) = C" "length (rows t) = R"
proof -
  have "Suc i \<le> R" using assms(3) by simp
  then have "Suc i * C \<le> R * C" by (rule mult_le_mono1)
  then have "i * C + C \<le> length (data t)" by (simp add: assms(2) add.commute)
  then show "length (rows t ! i) = C" using assms(1,3) by (simp add: rows_def)
  show "length (rows t) = R" using assms(1) by (simp add: rows_def)
qed

lemma rows_all_length:
  assumes "shape t = [R, C]" "length (data t) = R * C" "row \<in> set (rows t)"
  shows "length row = C"
proof -
  from assms(3) obtain i where i: "i < length (rows t)" and r: "rows t ! i = row"
    unfolding in_set_conv_nth by blast
  have "i < R" using i rows_rank2(2)[OF assms(1,2)] assms(1) by (simp add: rows_def)
  from rows_rank2(1)[OF assms(1,2) this] r show ?thesis by simp
qed

lemma slice_cols_rank2:
  assumes "shape t = [R, C]" "a \<le> b" "b \<le> C"
  shows "slice_cols a b t = Inr (Tensor [R, b - a] (concat (map (\<lambda>row. take (b - a) (drop a row)) (rows t))))"
proof -
  have m: "min a C = a" "min b C = b" "max a b = b" using assms(2,3) by simp_all
  show ?thesis by (simp add: slice_cols_def Let_def assms(1) m)
qed

lemma rows_slice:
  assumes "shape t = [R, C]" "length (data t) = R * C" "a \<le> b" "b \<le> C"
  shows "rows (Tensor [R, b - a] (concat (map (\<lambda>row. take (b - a) (drop a row)) (rows t))))
       = map (\<lambda>row. take (b - a) (drop a row)) (rows t)"
proof -
  let ?xs = "map (\<lambda>row. take (b - a) (drop a row)) (rows t)"
  have l: "length ?xs = R" using assms(1) by (simp add: rows_def)
  have "\<forall>x \<in> set ?xs. length x = b - a"
  proof
    fix x assume "x \<in> set ?xs"
    then obtain row where row: "row \<in> set (rows t)" and x: "x = take (b - a) (drop a row)"
      by auto
    have "length row = C" by (rule rows_all_length[OF assms(1,2) row])
    then show "length x = b - a" using x assms(3,4) by simp
  qed
  from rows_concat[OF this] show ?thesis unfolding l .
qed

text \<open>
  Claim C3.  For a hybrid raw output of \<open>R\<close> rows of width at least
  \<open>num_classes + num_targets\<close>, the classification slice and the regression slice exist, have
  widths \<open>num_classes\<close> and \<open>num_targets\<close>, and in every row the classification columns
  followed by the regression columns are exactly the first \<open>num_classes + num_targets\<close>
  columns of the row: no column is shared and none is left out.
\<close>

theorem hybrid_slices_partition:
  assumes "shape model_output = [R, C]" "length (data model_output) = R * C"
      and "length (label_value cfg) + length (target_value cfg) \<le> C"
  shows "\<exists>cls reg. class_slice cfg model_output = Inr cls
      \<and> regression_slice cfg model_output = Inr reg
      \<and> shape cls = [R, length (label_value cfg)]
      \<and> shape reg = [R, length (target_value cfg)]
      \<and> (\<forall>i < R. rows cls ! i @ rows reg ! i
              = take (length (label_value cfg) + length (target_value cfg)) (rows model_output ! i)
            \<and> length (rows cls ! i) = length (label_value cfg)
            \<and> length (rows reg ! i) = length (target_value cfg))"
proof -
  let ?nc = "length (label_value cfg)" and ?nt = "length (target_value cfg)"
  let ?cls = "Tensor [R, ?nc - 0] (concat (map (\<lambda>row. take (?nc - 0) (drop 0 row)) (rows model_output)))"
  let ?reg = "Tensor [R, ?nc + ?nt - ?nc] (concat (map (\<lambda>row. take (?nc + ?nt - ?nc) (drop ?nc row)) (rows model_output)))"
  have c0: "0 \<le> ?nc" "?nc \<le> C" "?nc \<le> ?nc + ?nt" using assms(3) by simp_all
  have a: "class_slice cfg model_output = Inr ?cls"
    unfolding class_slice_def by (rule slice_cols_rank2[OF assms(1) c0(1,2)])
  have b: "regression_slice cfg model_output = Inr ?reg"
    unfolding regression_slice_def by (rule slice_cols_rank2[OF assms(1) c0(3) assms(3)])
  have rc: "rows ?cls = map (\<lambda>row. take (?nc - 0) (drop 0 row)) (rows model_output)"
    by (rule rows_slice[OF assms(1,2) c0(1,2)])
  have rr: "rows ?reg = map (\<lambda>row. take (?nc + ?nt - ?nc) (drop ?nc row)) (rows model_output)"
    by (rule rows_slice[OF assms(1,2) c0(3) assms(3)])
  have rows: "rows ?cls ! i @ rows ?reg ! i = take (?nc + ?nt) (rows model_output ! i)
            \<and> length (rows ?cls ! i) = ?nc \<and> length (rows ?reg ! i) = ?nt" if i: "i < R" for i
  proof -
    have l: "length (rows model_output ! i) = C" "length (rows model_output) = R"
      by (rule rows_rank2[OF assms(1,2) i])+
    show ?thesis
      unfolding rc rr using i l assms(3) by (simp add: take_add)
  qed
  have sh: "shape ?cls = [R, ?nc]" "shape ?reg = [R, ?nt]" by simp_all
  show ?thesis using a b sh rows by blast
qed

theorem hybrid_slices_partition_witness:
  "\<exists>cls reg. class_slice \<lparr>input_names = [], label_names = [''isSignal''], target_names = [''pt'', ''eta''],
         label_value = [''a'', ''b'', ''c''], target_value = [''pt'', ''eta'']\<rparr>
        (Tensor [2, 5] [1, 2, 3, 4, 5, 6, 7, 8, 9, 10 :: int]) = Inr cls
      \<and> regression_slice \<lparr>input_names = [], label_names = [''isSignal''], target_names = [''pt'', ''eta''],
         label_value = [''a'', ''b'', ''c''], target_value = [''pt'', ''eta'']\<rparr>
        (Tensor [2, 5] [1, 2, 3, 4, 5, 6, 7, 8, 9, 10 :: int]) = Inr reg
      \<and> shape cls = [2, 3] \<and> shape reg = [2, 2]
      \<and> (\<forall>i < 2. rows cls ! i @ rows reg ! i
              = take 5 (rows (Tensor [2, 5] [1, 2, 3, 4, 5, 6, 7, 8, 9, 10 :: int]) ! i)
            \<and> length (rows cls ! i) = 3 \<and> length (rows reg ! i) = 2)"
  using hybrid_slices_partition[of "Tensor [2, 5] [1, 2, 3, 4, 5, 6, 7, 8, 9, 10 :: int]" 2 5
      "\<lparr>input_names = [], label_names = [''isSignal''], target_names = [''pt'', ''eta''],
         label_value = [''a'', ''b'', ''c''], target_value = [''pt'', ''eta'']\<rparr>"]
  by (simp add: eval_nat_numeral)

lemma hybrid_slices_example:
  "class_slice \<lparr>input_names = [], label_names = [''isSignal''], target_names = [''pt'', ''eta''],
         label_value = [''a'', ''b'', ''c''], target_value = [''pt'', ''eta'']\<rparr>
        (Tensor [2, 5] [1, 2, 3, 4, 5, 6, 7, 8, 9, 10 :: int]) = Inr (Tensor [2, 3] [1, 2, 3, 6, 7, 8])"
  "regression_slice \<lparr>input_names = [], label_names = [''isSignal''], target_names = [''pt'', ''eta''],
         label_value = [''a'', ''b'', ''c''], target_value = [''pt'', ''eta'']\<rparr>
        (Tensor [2, 5] [1, 2, 3, 4, 5, 6, 7, 8, 9, 10 :: int]) = Inr (Tensor [2, 2] [4, 5, 9, 10])"
  by code_simp+

lemma bindE_Inr_iff: "bindE m f = Inr y \<longleftrightarrow> (\<exists>x. m = Inr x \<and> f x = Inr y)"
  by (cases m) (simp_all add: bindE_def)

lemma py_div_Inr_iff: "py_div a b = Inr q \<longleftrightarrow> b \<noteq> 0 \<and> q = a / b"
  by (auto simp: py_div_def)

lemma train_update_fields:
  assumes "train_classification_update st (n, l, c, lab) = Inr st'"
  shows "num_batches st' = Suc (num_batches st)" "total_loss st' = total_loss st + l"
    "count st' = count st + n" "total_correct st' = total_correct st + c"
  using assms by (auto simp: train_classification_update_def Let_def bindE_Inr_iff)


lemma eval_update_fields:
  assumes "evaluate_classification_update st r = Inr st'"
  shows "num_batches st' = Suc (num_batches st)"
    "total_loss st' = total_loss st + b_loss r * real (b_num_examples r)"
    "count st' = count st + b_num_examples r" "total_correct st' = total_correct st + b_correct r"
    "targets st' = targets st" "b_num_examples r \<noteq> 0"
    "postfix st' = [(''Loss'', b_loss r), (''AvgLoss'', total_loss st' / real (count st')),
        (''Acc'', real (b_correct r) / real (b_num_examples r)),
        (''AvgAcc'', real (total_correct st') / real (count st'))]"
  using assms
  by (auto simp: evaluate_classification_update_def Let_def bindE_Inr_iff py_div_Inr_iff)






lemma eval_pass_loop:
  assumes "evaluate_classification cfg model lf sm ft steps bs = Inr (st, res)"
  shows "evaluate_classification_loop cfg model lf sm ft steps init_state bs = Inr st
     \<and> (\<exists>arr. np_concatenate (scores st) = Inr arr)"
  using assms
  by (auto simp: evaluate_classification_def bindE_Inr_iff split: if_splits prod.splits)






lemma running_average_loss_example:
  "sum_list (map (\<lambda>r. fst (snd r))
        (take (num_batches example_train_state)
          (train_classification_trace example_config (\<lambda>m. hd) example_loss (\<lambda>m i l. Suc m) 0 example_loader)))
        / real (num_batches example_train_state) = (1 + 3) / 2
   \<and> map_of (postfix example_eval_state) ''AvgLoss'' = Some ((1 * 2 + 3 * 1) / (2 + 1))"
  by code_simp

lemma eval_loop_targets:
  assumes "evaluate_classification_loop cfg model lf sm ft steps st bs = Inr st'"
  shows "targets st' = targets st"
  using assms
proof (induction bs arbitrary: st)
  case Nil
  then show ?case by simp
next
  case (Cons b bs)
  from Cons.prems obtain r st1 where
    u: "evaluate_classification_update st r = Inr st1"
    and rest: "(if steps_reached steps (num_batches st1) then Inr st1
               else evaluate_classification_loop cfg model lf sm ft steps st1 bs) = Inr st'"
    by (auto simp: bindE_Inr_iff)
  show ?case
  proof (cases "steps_reached steps (num_batches st1)")
    case True
    then have "st' = st1" using rest by simp
    then show ?thesis using eval_update_fields(5)[OF u] by simp
  next
    case False
    then have "evaluate_classification_loop cfg model lf sm ft steps st1 bs = Inr st'"
      using rest by simp
    from Cons.IH[OF this] eval_update_fields(5)[OF u] show ?thesis by simp
  qed
qed

lemma eval_pass_full:
  assumes "evaluate_classification cfg model lf sm False steps bs = Inr (st, res)"
  shows "\<exists>acc s ls obs. res = Full acc s ls (targets st) obs"
  using assms
  by (auto simp: evaluate_classification_def bindE_Inr_iff split: prod.splits)

lemma example_target_pass:
  "evaluate_classification example_target_config hd (Some example_loss) (\<lambda>xs. xs) False None
     example_target_loader
   = Inr (example_target_state,
       Full 1 (Dense (Tensor [2, 2] [1, 0, 0, 1]))
         [(''y'', Dense (Tensor [2] [0, 1])), (''pt'', Dense (Tensor [2] [5, 6]))]
         [] [(''obs'', Tensor [2] [7, 8])])"
  by code_simp

text \<open>
  Claim C10.  Whenever \<open>evaluate_classification\<close> with \<^verbatim>\<open>for_training=False\<close> returns, what it
  returns is the five-component result and its targets component is the empty mapping,
  whatever the configuration, the model, the loss, the step budget and the batches.
\<close>

theorem evaluate_classification_targets_empty:
  "evaluate_classification cfg model lf sm False steps bs = Inr (st, res)
     \<Longrightarrow> \<exists>acc s ls obs. res = Full acc s ls [] obs"
proof -
  assume a: "evaluate_classification cfg model lf sm False steps bs = Inr (st, res)"
  from eval_pass_loop[OF a] have
    "evaluate_classification_loop cfg model lf sm False steps init_state bs = Inr st" by blast
  from eval_loop_targets[OF this] have "targets st = []" by (simp add: init_state_def)
  with eval_pass_full[OF a] show ?thesis by simp
qed

theorem evaluate_classification_targets_empty_witness:
  "evaluate_classification example_target_config hd (Some example_loss) (\<lambda>xs. xs) False None
     example_target_loader
   = Inr (example_target_state,
       Full 1 (Dense (Tensor [2, 2] [1, 0, 0, 1]))
         [(''y'', Dense (Tensor [2] [0, 1])), (''pt'', Dense (Tensor [2] [5, 6]))]
         [] [(''obs'', Tensor [2] [7, 8])])
   \<and> (\<exists>acc s ls obs.
        Full 1 (Dense (Tensor [2, 2] [1, 0, 0, 1]))
         [(''y'', Dense (Tensor [2] [0, 1])), (''pt'', Dense (Tensor [2] [5, 6]))]
         [] [(''obs'', Tensor [2] [7, 8])] = Full acc s ls [] obs)"
  using evaluate_classification_targets_empty[OF example_target_pass] example_target_pass
  by blast

lemma np_transpose_rank:
  "length axes \<noteq> ndim t \<Longrightarrow> np_transpose axes t = Inl ValueError"
  by (simp add: np_transpose_def)

lemma np_reshape_rank:
  "np_reshape dims t = Inr r \<Longrightarrow> ndim r = length dims"
  by (auto simp: np_reshape_def Let_def ndim_def split: if_splits)

lemma regroup_uniform_never_returns:
  assumes "labels_counts st = []" "len scores_arr \<noteq> entry_count st"
  shows "\<exists>e. regroup st scores_arr labels_arr = Inl e"
proof (cases "np_reshape [Some (entry_count st), Some (count st div entry_count st), None] scores_arr")
  case (Inl e)
  then show ?thesis using assms by (simp add: regroup_def bindE_def)
next
  case (Inr r)
  from np_reshape_rank[OF Inr] have "ndim r = 3" by simp
  then have "np_transpose [1, 2] r = Inl ValueError" by (simp add: np_transpose_rank)
  then show ?thesis using assms Inr by (simp add: regroup_def bindE_def)
qed

lemma example_uniform_loop:
  "evaluate_classification_loop example_config hd (Some example_loss) (\<lambda>xs. xs) False None
     init_state example_uniform_loader = Inr example_uniform_state"
  by code_simp

text \<open>
  Claim C6 on the code.  An evaluation pass over one batch of two entries with two
  positions each and no mask accumulates four scores for two entries, so the flat count
  is a proper multiple of the entry count.  The reshape to (entries, multiplicity,
  channels) succeeds, and the transpose that follows, \<^verbatim>\<open>.transpose((1, 2))\<close>, raises
  ValueError: it names two axes of an array that has three.  The pass raises instead of
  returning the transposed array (as a pass for training, which skips the regrouping, it
  returns).
\<close>

theorem uniform_regroup_raises:
  "evaluate_classification_loop example_config hd (Some example_loss) (\<lambda>xs. xs) False None
     init_state example_uniform_loader = Inr example_uniform_state
   \<and> labels_counts example_uniform_state = []
   \<and> np_concatenate (scores example_uniform_state) = Inr (Tensor [4, 2] [1, 0, 0, 1, 0, 1, 1, 0])
   \<and> count example_uniform_state = 2 * entry_count example_uniform_state
   \<and> np_reshape [Some (entry_count example_uniform_state),
         Some (count example_uniform_state div entry_count example_uniform_state), None]
        (Tensor [4, 2] [1, 0, 0, 1, 0, 1, 1, 0 :: real])
      = Inr (Tensor [2, 2, 2] [1, 0, 0, 1, 0, 1, 1, 0])
   \<and> np_transpose [1, 2] (Tensor [2, 2, 2] [1, 0, 0, 1, 0, 1, 1, 0 :: real]) = Inl ValueError
   \<and> regroup example_uniform_state (Tensor [4, 2] [1, 0, 0, 1, 0, 1, 1, 0])
        [(''y'', Tensor [4] [0, 1, 1, 0])] = Inl ValueError
   \<and> evaluate_classification example_config hd (Some example_loss) (\<lambda>xs. xs) False None
        example_uniform_loader = Inl ValueError
   \<and> evaluate_classification example_config hd (Some example_loss) (\<lambda>xs. xs) True None
        example_uniform_loader = Inr (example_uniform_state, Summary 1)"
  by code_simp

lemma lookup_mask_missing:
  "map_of y (name @ ''_mask'') = None \<Longrightarrow> lookup_mask y name = Inr None"
  by (simp add: lookup_mask_def getitem_def)

lemma flatten_label_no_mask:
  "flatten_label t None = Inr (if 1 < ndim t then view_flat t else t)"
  by (simp add: flatten_label_def)

lemma transpose_t_size:
  "transpose_t a b t = Inr t' \<Longrightarrow> length (data t') = length (data t)"
  by (auto simp: transpose_t_def split: if_splits)

lemma view_rows_size:
  "view_rows k t = Inr t' \<Longrightarrow> data t' = data t"
  by (auto simp: view_rows_def split: if_splits)

lemma flatten_preds_no_mask_size:
  assumes "flatten_preds p None ax = Inr fp"
  shows "length (data fp) = length (data p)"
proof (cases "2 < ndim p")
  case True
  with assms obtain p1 where
    a: "transpose_t ax (ndim p - 1) p = Inr p1" and b: "view_rows (last (shape p1)) p1 = Inr fp"
    by (auto simp: flatten_preds_def bindE_Inr_iff)
  from transpose_t_size[OF a] view_rows_size[OF b] show ?thesis by simp
next
  case False
  with assms show ?thesis by (simp add: flatten_preds_def)
qed

lemma train_batch_missing_mask:
  assumes "first (label_names cfg) = Inr name" "map_of y (name @ ''_mask'') = None"
  shows "train_classification_batch cfg fw lf opt m (X, y, Z)
       = train_classification_batch_no_mask cfg fw lf opt m (X, y, Z)"
proof (cases "model_inputs cfg X")
  case (Inl e)
  then show ?thesis
    by (simp add: train_classification_batch_def train_classification_batch_no_mask_def bindE_def)
next
  case i: (Inr inputs)
  show ?thesis
  proof (cases "getitem y name")
    case (Inl e)
    then show ?thesis using i assms(1)
      by (simp add: train_classification_batch_def train_classification_batch_no_mask_def bindE_def)
  next
    case (Inr raw)
    then show ?thesis using i assms(1) lookup_mask_missing[OF assms(2)]
      by (simp add: train_classification_batch_def train_classification_batch_no_mask_def bindE_def)
  qed
qed

lemma eval_batch_missing_mask:
  assumes "first (label_names cfg) = Inr name" "map_of y (name @ ''_mask'') = None"
  shows "evaluate_classification_batch cfg model lf sm ft (X, y, Z)
       = evaluate_classification_batch_no_mask cfg model lf sm ft (X, y, Z)"
proof (cases "model_inputs cfg X")
  case (Inl e)
  then show ?thesis
    by (simp add: evaluate_classification_batch_def evaluate_classification_batch_no_mask_def bindE_def)
next
  case i: (Inr inputs)
  show ?thesis
  proof (cases "getitem y name")
    case (Inl e)
    then show ?thesis using i assms(1)
      by (simp add: evaluate_classification_batch_def evaluate_classification_batch_no_mask_def bindE_def)
  next
    case r: (Inr raw)
    show ?thesis
    proof (cases "shape0 (long_t raw)")
      case (Inl e)
      then show ?thesis using i r assms(1)
        by (simp add: evaluate_classification_batch_def evaluate_classification_batch_no_mask_def bindE_def)
    next
      case (Inr entries)
      then show ?thesis using i r assms(1) lookup_mask_missing[OF assms(2)]
        by (simp add: evaluate_classification_batch_def evaluate_classification_batch_no_mask_def bindE_def)
    qed
  qed
qed

lemma example_missing_mask_key:
  "first (label_names example_config) = Inr ''y''
   \<and> map_of [(''y'', Tensor [2, 2] [0, 1, 1, 0 :: real])] (''y'' @ ''_mask'') = None
   \<and> flatten_preds (Tensor [2, 2, 2] [1, 0, 0, 1, 0, 1, 1, 0 :: real]) None 1
       = Inr (Tensor [4, 2] [1, 0, 0, 1, 0, 1, 1, 0])"
  by code_simp

text \<open>
  Claim C9.  When the truths \<open>y\<close> of a batch have no entry under the label name followed
  by \<^verbatim>\<open>_mask\<close>, the lookup of the mask raises nothing and gives \<^verbatim>\<open>None\<close>, and the batch
  computations of the training loop and of the evaluation loop are the computations
  without a mask.  Without a mask the label flattening always succeeds and keeps every
  element, in order, and the prediction flattening keeps the number of elements.
\<close>

theorem missing_mask_is_no_mask:
  "first (label_names cfg) = Inr name \<and> map_of y (name @ ''_mask'') = None \<longrightarrow>
     lookup_mask y name = Inr None
     \<and> train_classification_batch cfg fw lf opt m (X, y, Z)
         = train_classification_batch_no_mask cfg fw lf opt m (X, y, Z)
     \<and> evaluate_classification_batch cfg model elf sm ft (X, y, Z)
         = evaluate_classification_batch_no_mask cfg model elf sm ft (X, y, Z)
     \<and> (\<exists>fl. flatten_label t None = Inr fl \<and> data fl = data t)
     \<and> (flatten_preds p None ax = Inr fp \<longrightarrow> length (data fp) = length (data p))"
proof (intro impI conjI)
  assume a: "first (label_names cfg) = Inr name \<and> map_of y (name @ ''_mask'') = None"
  show "lookup_mask y name = Inr None" by (rule lookup_mask_missing[OF conjunct2[OF a]])
  show "train_classification_batch cfg fw lf opt m (X, y, Z)
         = train_classification_batch_no_mask cfg fw lf opt m (X, y, Z)"
    by (rule train_batch_missing_mask[OF conjunct1[OF a] conjunct2[OF a]])
  show "evaluate_classification_batch cfg model elf sm ft (X, y, Z)
         = evaluate_classification_batch_no_mask cfg model elf sm ft (X, y, Z)"
    by (rule eval_batch_missing_mask[OF conjunct1[OF a] conjunct2[OF a]])
  show "\<exists>fl. flatten_label t None = Inr fl \<and> data fl = data t"
    by (simp add: flatten_label_no_mask view_flat_def)
  show "length (data fp) = length (data p)" if "flatten_preds p None ax = Inr fp"
    by (rule flatten_preds_no_mask_size[OF that])
qed

theorem missing_mask_is_no_mask_witness:
  "(first (label_names example_config) = Inr ''y''
   \<and> map_of [(''y'', Tensor [2, 2] [0, 1, 1, 0 :: real])] (''y'' @ ''_mask'') = None
   \<and> flatten_preds (Tensor [2, 2, 2] [1, 0, 0, 1, 0, 1, 1, 0 :: real]) None 1
       = Inr (Tensor [4, 2] [1, 0, 0, 1, 0, 1, 1, 0]))
   \<and> lookup_mask [(''y'', Tensor [2, 2] [0, 1, 1, 0 :: real])] ''y'' = Inr None
   \<and> train_classification_batch example_config (\<lambda>m. hd) example_loss (\<lambda>m i l. Suc m) 0
        ([(''x'', Tensor [2, 2, 2] [1, 0, 0, 1, 0, 1, 1, 0])], [(''y'', Tensor [2, 2] [0, 1, 1, 0])], [])
      = train_classification_batch_no_mask example_config (\<lambda>m. hd) example_loss (\<lambda>m i l. Suc m) 0
        ([(''x'', Tensor [2, 2, 2] [1, 0, 0, 1, 0, 1, 1, 0])], [(''y'', Tensor [2, 2] [0, 1, 1, 0])], [])
   \<and> evaluate_classification_batch example_config hd (Some example_loss) (\<lambda>xs. xs) False
        ([(''x'', Tensor [2, 2, 2] [1, 0, 0, 1, 0, 1, 1, 0])], [(''y'', Tensor [2, 2] [0, 1, 1, 0])], [])
      = evaluate_classification_batch_no_mask example_config hd (Some example_loss) (\<lambda>xs. xs) False
        ([(''x'', Tensor [2, 2, 2] [1, 0, 0, 1, 0, 1, 1, 0])], [(''y'', Tensor [2, 2] [0, 1, 1, 0])], [])
   \<and> (\<exists>fl. flatten_label (Tensor [2, 2] [0, 1, 1, 0 :: int]) None = Inr fl
         \<and> data fl = data (Tensor [2, 2] [0, 1, 1, 0 :: int]))
   \<and> length (data (Tensor [4, 2] [1, 0, 0, 1, 0, 1, 1, 0 :: real]))
       = length (data (Tensor [2, 2, 2] [1, 0, 0, 1, 0, 1, 1, 0 :: real]))"
  using missing_mask_is_no_mask[of example_config "''y''" "[(''y'', Tensor [2, 2] [0, 1, 1, 0])]"
      "\<lambda>m. hd" example_loss "\<lambda>m i l. Suc m" 0 "[(''x'', Tensor [2, 2, 2] [1, 0, 0, 1, 0, 1, 1, 0])]" "[]"
      hd "Some example_loss" "\<lambda>xs. xs" False "Tensor [2, 2] [0, 1, 1, 0 :: int]"
      "Tensor [2, 2, 2] [1, 0, 0, 1, 0, 1, 1, 0 :: real]" 1 "Tensor [4, 2] [1, 0, 0, 1, 0, 1, 1, 0]"]
    example_missing_mask_key
  by blast

lemma missing_mask_example:
  "train_classification_batch example_config (\<lambda>m. hd) example_loss (\<lambda>m i l. Suc m) 0
        ([(''x'', Tensor [2, 2, 2] [1, 0, 0, 1, 0, 1, 1, 0])], [(''y'', Tensor [2, 2] [0, 1, 1, 0])], [])
      = Inr (Suc 0, 4, 1, 4, Tensor [4] [0, 1, 1, 0])"
  "map_sum id (\<lambda>r. (b_entries r, b_counts r, b_num_examples r, b_label r, b_score r, b_labels r))
     (evaluate_classification_batch example_config hd (Some example_loss) (\<lambda>xs. xs) False
        ([(''x'', Tensor [2, 2, 2] [1, 0, 0, 1, 0, 1, 1, 0])], [(''y'', Tensor [2, 2] [0, 1, 1, 0])], []))
      = Inr (2, None, 4, Tensor [4] [0, 1, 1, 0], Tensor [4, 2] [1, 0, 0, 1, 0, 1, 1, 0],
             [(''y'', Tensor [4] [0, 1, 1, 0])])"
  by code_simp+









lemma len_rank1: "ndim c = 1 \<Longrightarrow> wf_tensor c \<Longrightarrow> len c = length (data c)"
  by (cases "shape c") (auto simp: ndim_def wf_tensor_def len_def)


lemma example_masked_pass:
  "evaluate_classification example_config hd (Some example_loss) (\<lambda>xs. xs) False None
     example_masked_loader
   = Inr (example_masked_state,
       Full 1
        (Jagged [Tensor [1, 2] [1, 0], Tensor [2, 2] [0, 1, 1, 0],
                 Tensor [2, 2] [5, 0, 0, 6], Tensor [1, 2] [7, 0]])
        [(''y'', Jagged [Tensor [1] [0], Tensor [2] [1, 0], Tensor [2] [0, 1], Tensor [1] [0]]),
         (''y_mask'', Jagged [Tensor [1] [1], Tensor [2] [1, 1], Tensor [2] [1, 1], Tensor [1] [1]])]
        [] [])"
  "np_concatenate (scores example_masked_state) = Inr example_masked_scores"
  "mapE (\<lambda>(k, v). bindE (concat_arrays v) (\<lambda>c. Inr (k, c))) (labels example_masked_state)
     = Inr example_masked_labels"
  by code_simp+





lemma regroup_example:
  "regroup example_masked_state example_masked_scores example_masked_labels
     = Inr (Jagged [Tensor [1, 2] [1, 0], Tensor [2, 2] [0, 1, 1, 0],
                    Tensor [2, 2] [5, 0, 0, 6], Tensor [1, 2] [7, 0]],
        [(''y'', Jagged [Tensor [1] [0], Tensor [2] [1, 0], Tensor [2] [0, 1], Tensor [1] [0]]),
         (''y_mask'', Jagged [Tensor [1] [1], Tensor [2] [1, 1], Tensor [2] [1, 1], Tensor [1] [1]])])"
  "ak_flatten [Tensor [1, 2] [1, 0], Tensor [2, 2] [0, 1, 1, 0],
               Tensor [2, 2] [5, 0, 0, 6], Tensor [1, 2] [7, 0 :: real]]
     = data example_masked_scores"
  by code_simp+

lemma tensor_to_unknown_keyword: "tensor_to [''devmnon_blocking''] t = Inl TypeError"
  by (simp add: tensor_to_def)

lemma evaluate_regression_batch_raises:
  "\<exists>e. evaluate_regression_batch cfg model loss_func for_training b = Inl e"
proof -
  obtain X y Z where b: "b = (X, y, Z)" by (cases b) auto
  show ?thesis
  proof (cases "model_inputs cfg X")
    case (Inl e)
    then show ?thesis by (simp add: b evaluate_regression_batch_def bindE_def)
  next
    case i: (Inr inputs)
    show ?thesis
    proof (cases "build_target cfg y")
      case (Inl e)
      then show ?thesis by (simp add: b i evaluate_regression_batch_def bindE_def)
    next
      case t: (Inr target)
      show ?thesis
      proof (cases target)
        case None
        then show ?thesis by (simp add: b i t evaluate_regression_batch_def bindE_def of_target_def)
      next
        case (Some tg)
        then show ?thesis
          by (cases "shape0 tg")
            (simp_all add: b i t evaluate_regression_batch_def bindE_def of_target_def
              tensor_to_unknown_keyword)
      qed
    qed
  qed
qed

lemma evaluate_regression_never_returns:
  "\<exists>e. evaluate_regression cfg model loss_func for_training steps_per_epoch test_loader = Inl e"
proof (cases test_loader)
  case Nil
  then show ?thesis
    by (simp add: evaluate_regression_def bindE_def init_state_def np_concatenate_def)
next
  case (Cons b bs)
  from evaluate_regression_batch_raises obtain e where
    "evaluate_regression_batch cfg model loss_func for_training b = Inl e" by blast
  then show ?thesis by (simp add: Cons evaluate_regression_def bindE_def)
qed

text \<open>
  Claim C7 on the code.  On a loader of one batch that carries the regression truth the
  configuration names, \<open>evaluate_regression\<close> builds the target and reads its number of
  examples, and then raises TypeError at line 459, where \<^verbatim>\<open>to\<close> is called with the unknown
  keyword \<^verbatim>\<open>devmnon_blocking\<close>: it returns neither the scalar nor the five-component result,
  with \<^verbatim>\<open>for_training\<close> false as well as true.
\<close>

theorem evaluate_regression_raises:
  "build_target example_target_config
      [(''y'', Tensor [2] [0, 1]), (''pt'', Tensor [2] [5, 6])] = Inr (Some (Tensor [2] [5, 6]))
   \<and> of_target (Some (Tensor [2] [5, 6 :: real])) shape0 = Inr 2
   \<and> of_target (Some (Tensor [2] [5, 6 :: real])) (tensor_to [''devmnon_blocking'']) = Inl TypeError
   \<and> evaluate_regression example_target_config hd (Some (\<lambda>p t. 0)) False None example_target_loader
       = Inl TypeError
   \<and> evaluate_regression example_target_config hd (Some (\<lambda>p t. 0)) True None example_target_loader
       = Inl TypeError"
  by code_simp

lemma train_classification_loop_budget:
  assumes "train_classification_loop cfg fw lf opt (Some s) m st bs = Inr (m', st')"
  shows "num_batches st' = num_batches st \<or> int (num_batches st') \<le> max (int (num_batches st) + 1) s"
  using assms
proof (induction bs arbitrary: m st)
  case Nil
  then show ?case by simp
next
  case (Cons b bs)
  from Cons.prems obtain m1 r st1 where
    u: "train_classification_update st r = Inr st1"
    and rest: "(if steps_reached (Some s) (num_batches st1) then Inr (m1, st1)
               else train_classification_loop cfg fw lf opt (Some s) m1 st1 bs) = Inr (m', st')"
    by (auto simp: bindE_Inr_iff)
  obtain n l c lab where r: "r = (n, l, c, lab)" by (cases r) auto
  have n1: "num_batches st1 = Suc (num_batches st)"
    by (rule train_update_fields(1)[OF u[unfolded r]])
  show ?case
  proof (cases "steps_reached (Some s) (num_batches st1)")
    case True
    then have "st' = st1" using rest by simp
    then show ?thesis using n1 by simp
  next
    case False
    then have lt: "int (num_batches st1) < s" by (simp add: steps_reached_def)
    from False have "train_classification_loop cfg fw lf opt (Some s) m1 st1 bs = Inr (m', st')"
      using rest by simp
    from Cons.IH[OF this] show ?thesis using n1 lt by auto
  qed
qed

lemma train_classification_budget:
  assumes "train_classification cfg fw lf opt (Some s) m bs = Inr (m', st, avg_loss, avg_acc)"
      and "1 \<le> s"
  shows "int (num_batches st) \<le> s"
proof -
  from assms(1) have "train_classification_loop cfg fw lf opt (Some s) m init_state bs = Inr (m', st)"
    by (auto simp: train_classification_def bindE_Inr_iff)
  from train_classification_loop_budget[OF this] assms(2) show ?thesis
    by (auto simp: init_state_def)
qed

text \<open>
  Claim C8 on the code.  With a step budget of 1, \<open>train_hybrid\<close> over a batch whose raw
  output has one axis followed by two regular batches accumulates two batches: after
  the first batch the budget is reached, but the \<^verbatim>\<open>continue\<close> of line 708 has skipped the
  test of lines 750 and 751, so the second batch is processed as well, and only then
  does the loop break.  Over regular batches alone the same budget stops the loop after
  one batch.
\<close>

theorem train_hybrid_exceeds_budget:
  "steps_reached (Some 1) 1
   \<and> map_sum id (\<lambda>(m, st, avgs). (m, num_batches st, count st))
       (train_hybrid example_hybrid_config (\<lambda>m. hd) example_hybrid_loss (\<lambda>m i l. Suc m) (Some 1) (0 :: nat)
          [example_degenerate_batch, example_regular_batch, example_regular_batch])
     = Inr (2, 2, 4)
   \<and> map_sum id (\<lambda>(m, st, avgs). (m, num_batches st, count st))
       (train_hybrid example_hybrid_config (\<lambda>m. hd) example_hybrid_loss (\<lambda>m i l. Suc m) (Some 1) (0 :: nat)
          [example_regular_batch, example_regular_batch, example_regular_batch])
     = Inr (1, 1, 2)"
  by code_simp

lemma evaluate_hybrid_step_rank1:
  assumes "\<And>inputs. ndim (model inputs) = 1"
  shows "\<exists>e. evaluate_hybrid_step cfg model loss_func sm for_training st b = Inl e"
proof -
  obtain X y Z where b: "b = (X, y, Z)" by (cases b) auto
  have c: "class_slice cfg (model inputs) = Inl IndexError" for inputs
  proof -
    from assms[of inputs] obtain n where "shape (model inputs) = [n]"
      by (cases "shape (model inputs)") (auto simp: ndim_def)
    then show ?thesis by (simp add: class_slice_def slice_cols_def)
  qed
  show ?thesis unfolding b evaluate_hybrid_step_def
    by (auto simp: bindE_def c split: sum.splits prod.splits)
qed

text \<open>
  Claim C4 on the code.  A batch whose raw output has one axis does not reach the
  placeholder branch of \<open>evaluate_hybrid\<close>: the slice of line 853 asks for a second axis
  and raises IndexError, so the pass over a regular batch followed by such a batch
  raises and the statistics of the regular batch are lost with it.  \<open>train_hybrid\<close> on the
  same batches returns, with both batches counted and the accuracy credit of the
  regular batch only.
\<close>

theorem evaluate_hybrid_rank1_raises:
  "ndim (hd [Tensor [3] [1, 2, 3 :: real]]) = 1
   \<and> class_slice example_hybrid_config (hd [Tensor [3] [1, 2, 3 :: real]]) = Inl IndexError
   \<and> evaluate_hybrid_step example_hybrid_config hd (Some example_hybrid_loss) (\<lambda>xs. xs) False
        init_state example_degenerate_batch = Inl IndexError
   \<and> evaluate_hybrid example_hybrid_config hd (Some example_hybrid_loss) (\<lambda>xs. xs) False None
        [example_regular_batch, example_degenerate_batch] = Inl IndexError
   \<and> evaluate_hybrid example_hybrid_config hd (Some example_hybrid_loss) (\<lambda>xs. xs) True None
        [example_regular_batch, example_degenerate_batch] = Inl IndexError
   \<and> map_sum id (\<lambda>(st, res). (num_batches st, total_correct st))
       (evaluate_hybrid example_hybrid_config hd (Some example_hybrid_loss) (\<lambda>xs. xs) False None
          [example_regular_batch]) = Inr (1, 2)
   \<and> map_sum id (\<lambda>(m, st, avgs). (num_batches st, count st, total_correct st))
       (train_hybrid example_hybrid_config (\<lambda>m. hd) example_hybrid_loss (\<lambda>m i l. Suc m) None (0 :: nat)
          [example_regular_batch, example_degenerate_batch]) = Inr (2, 4, 2)"
  by code_simp

end
